theory Spec2Isabelle
  imports Complex_Main "HOL-Library.AList" "HOL-Library.Multiset"
begin

section \<open>Python values, dictionaries and errors\<close>

text \<open>
  The service passes untyped nested dictionaries around (filters, document metadata,
  agent metadata). They are modelled as JSON-like values. A dictionary is an association
  list with Python's behaviour: assignment to an existing key replaces the value in place,
  assignment to a new key appends the entry, lookup returns the entry of the key.
\<close>

datatype json =
    JNull
  | JBool bool
  | JInt int
  | JStr string
  | JList "json list"
  | JDict "(string \<times> json) list"

type_synonym pydict = "(string \<times> json) list"

datatype py_error =
    TypeError
  | KeyError string
  | IndexError
  | ValueError string
  | JSONDecodeError
  | AttributeError
  | ProviderError string

definition dict_get :: "pydict \<Rightarrow> string \<Rightarrow> json option" where
  "dict_get d k = map_of d k"

definition dict_set :: "string \<Rightarrow> json \<Rightarrow> pydict \<Rightarrow> pydict" where
  "dict_set k v d = AList.update k v d"

definition dict_del :: "string \<Rightarrow> pydict \<Rightarrow> pydict" where
  "dict_del k d = AList.delete k d"

definition dict_has :: "pydict \<Rightarrow> string \<Rightarrow> bool" where
  "dict_has d k = (k \<in> set (map fst d))"

text \<open>\<open>for key, value in src.items(): dst[key] = value\<close>\<close>

definition dict_update_all :: "pydict \<Rightarrow> pydict \<Rightarrow> pydict" where
  "dict_update_all src dst = fold (\<lambda>(k, v). dict_set k v) src dst"

definition and_then :: "'e + 'a \<Rightarrow> ('a \<Rightarrow> 'e + 'b) \<Rightarrow> 'e + 'b" where
  "and_then r f = (case r of Inl e \<Rightarrow> Inl e | Inr x \<Rightarrow> f x)"

definition or_else :: "'a option \<Rightarrow> 'a \<Rightarrow> 'a" where
  "or_else v dflt = (case v of None \<Rightarrow> dflt | Some x \<Rightarrow> x)"

text \<open>Python's \<open>needle in text\<close> on strings.\<close>

fun is_infix :: "string \<Rightarrow> string \<Rightarrow> bool" where
  "is_infix xs [] = (xs = [])"
| "is_infix xs (y # ys) = (take (length xs) (y # ys) = xs \<or> is_infix xs ys)"

section \<open>core/logging.py: log records inside a LoggingContext\<close>

text \<open>
  A log call creates a record only when the logger is enabled for the level of the call;
  \<open>lvl\<close> is the effective level of the application's logger (\<open>setup_logging\<close>
  sets it from \<open>LOG_LEVEL\<close>, \<open>INFO\<close> in \<open>config.py\<close>; without
  \<open>setup_logging\<close> it is Python's \<open>WARNING\<close>). \<open>Logger.makeRecord\<close> copies
  the keys of \<open>extra\<close> into the record and raises \<open>KeyError\<close> on a key that is
  \<open>message\<close>, \<open>asctime\<close> or already an attribute of the record. Inside
  \<open>with LoggingContext(organization_id=..., user_id=...)\<close> the record factory has
  already set \<open>organization_id\<close> and \<open>user_id\<close> on the record, each when its
  value is not empty: \<open>ctx\<close> is the list of the attributes set by the contexts that
  are active.
\<close>

datatype log_level = DEBUG | INFO | WARNING | ERROR | CRITICAL

fun level_rank :: "log_level \<Rightarrow> nat" where
  "level_rank DEBUG = 10"
| "level_rank INFO = 20"
| "level_rank WARNING = 30"
| "level_rank ERROR = 40"
| "level_rank CRITICAL = 50"

definition RECORD_ATTRIBUTES :: "string list" where
  "RECORD_ATTRIBUTES =
     [''name'', ''msg'', ''args'', ''levelname'', ''levelno'', ''pathname'', ''filename'',
      ''module'', ''exc_info'', ''exc_text'', ''stack_info'', ''lineno'', ''funcName'',
      ''created'', ''msecs'', ''relativeCreated'', ''thread'', ''threadName'',
      ''processName'', ''process'', ''message'', ''asctime'']"

definition logging_context :: "string \<Rightarrow> string \<Rightarrow> string list \<Rightarrow> string list" where
  "logging_context organization_id user_id ctx =
     ctx @ (if organization_id = [] then [] else [''organization_id''])
         @ (if user_id = [] then [] else [''user_id''])"

definition overwrite_error :: "string \<Rightarrow> py_error" where
  "overwrite_error key =
     KeyError (''Attempt to overwrite '' @ [CHR 0x27] @ key @ [CHR 0x27] @ '' in LogRecord'')"

definition log_call :: "log_level \<Rightarrow> string list \<Rightarrow> log_level \<Rightarrow> string list \<Rightarrow> py_error + unit" where
  "log_call lvl ctx level extra =
     (if level_rank lvl \<le> level_rank level then
        (case find (\<lambda>key. key \<in> set RECORD_ATTRIBUTES \<or> key \<in> set ctx) extra of
           None \<Rightarrow> Inr ()
         | Some key \<Rightarrow> Inl (overwrite_error key))
      else Inr ())"

text \<open>
  The two shapes of handler in the code:
  \<open>except Exception as e: logger.error(..., extra=...); raise\<close> and
  \<open>except Exception as e: logger.error(..., extra=...); return value\<close>.
  An exception raised by the log call itself leaves the handler.
\<close>

definition log_and_raise :: "log_level \<Rightarrow> string list \<Rightarrow> string list \<Rightarrow> py_error \<Rightarrow> py_error + 'a" where
  "log_and_raise lvl ctx extra e =
     (case log_call lvl ctx ERROR extra of Inl e' \<Rightarrow> Inl e' | Inr u \<Rightarrow> Inl e)"

definition log_and_return :: "log_level \<Rightarrow> string list \<Rightarrow> string list \<Rightarrow> 'a \<Rightarrow> py_error + 'a" where
  "log_and_return lvl ctx extra v =
     (case log_call lvl ctx ERROR extra of Inl e' \<Rightarrow> Inl e' | Inr u \<Rightarrow> Inr v)"

text \<open>A log call on the way to returning \<open>v\<close>.\<close>

definition logged :: "log_level \<Rightarrow> string list \<Rightarrow> log_level \<Rightarrow> string list \<Rightarrow> 'a \<Rightarrow> py_error + 'a" where
  "logged lvl ctx level extra v =
     (case log_call lvl ctx level extra of Inl e \<Rightarrow> Inl e | Inr u \<Rightarrow> Inr v)"

section \<open>utils/filtering.py\<close>

definition PRIVATE :: string where "PRIVATE = ''private''"
definition SHARED :: string where "SHARED = ''shared''"
definition PUBLIC :: string where "PUBLIC = ''public''"

text \<open>
  \<open>get_access_filters(organization_id, user_id, visibility=None, **additional_filters)\<close>.
  The model takes the organization and the user the call gives, the \<open>visibility\<close>
  argument when the call gives one by position or by name (\<open>None\<close> when it gives
  none), and the dictionary \<open>kwargs\<close> of the other keyword arguments of the call.
  Python binds them before the body runs: a keyword that repeats \<open>organization_id\<close>
  or \<open>user_id\<close>, or \<open>visibility\<close> when the call also gives it, makes the call
  raise \<open>TypeError\<close>; a keyword \<open>visibility\<close> that is given only there is the
  \<open>visibility\<close> parameter; the rest is \<open>additional_filters\<close>.

  \<open>custom_visibility\<close> is the branch for a \<open>visibility\<close> that is not \<open>None\<close>,
  from \<open>"private" in visibility\<close>, \<open>len(visibility)\<close>, the list
  \<open>[v for v in visibility if v != "private"]\<close> and \<open>visibility\<close> itself;
  \<open>visibility_filters\<close> computes those four for a list (the declared type), and for
  a string or a dictionary as Python does; \<open>in\<close> raises \<open>TypeError\<close> on a number.
\<close>

definition default_or :: "string \<Rightarrow> json" where
  "default_or user_id =
     JList [JDict [(''user_id'', JStr user_id)],
            JDict [(''visibility'', JDict [(''$in'', JList [JStr SHARED, JStr PUBLIC])])]]"

definition custom_visibility :: "string \<Rightarrow> bool \<Rightarrow> nat \<Rightarrow> json list \<Rightarrow> json \<Rightarrow> pydict \<Rightarrow> pydict" where
  "custom_visibility user_id has_private n others visibility filters =
     (if has_private then
        (if n = 1 then dict_set ''user_id'' (JStr user_id) filters
         else dict_set ''$or''
                (JList [JDict [(''user_id'', JStr user_id)],
                        JDict [(''visibility'', JDict [(''$in'', JList others)])]])
                filters)
      else dict_set ''visibility'' (JDict [(''$in'', visibility)]) filters)"

definition visibility_filters :: "string \<Rightarrow> json \<Rightarrow> pydict \<Rightarrow> py_error + pydict" where
  "visibility_filters user_id visibility filters =
     (case visibility of
        JNull \<Rightarrow> Inr (dict_set ''$or'' (default_or user_id) filters)
      | JList vis \<Rightarrow>
          Inr (custom_visibility user_id (JStr PRIVATE \<in> set vis) (length vis)
                 (filter (\<lambda>v. v \<noteq> JStr PRIVATE) vis) visibility filters)
      | JStr str \<Rightarrow>
          Inr (custom_visibility user_id (is_infix PRIVATE str) (length str)
                 (filter (\<lambda>v. v \<noteq> JStr PRIVATE) (map (\<lambda>c. JStr [c]) str)) visibility filters)
      | JDict d \<Rightarrow>
          Inr (custom_visibility user_id (dict_has d PRIVATE) (length d)
                 (filter (\<lambda>v. v \<noteq> JStr PRIVATE) (map (\<lambda>(k, v). JStr k) d)) visibility filters)
      | JBool b \<Rightarrow> Inl TypeError
      | JInt i \<Rightarrow> Inl TypeError)"

definition get_access_filters ::
  "log_level \<Rightarrow> string list \<Rightarrow> string \<Rightarrow> string \<Rightarrow> json option \<Rightarrow> pydict \<Rightarrow> py_error + pydict" where
  "get_access_filters lvl ctx organization_id user_id visibility kwargs =
     (if dict_has kwargs ''organization_id'' \<or> dict_has kwargs ''user_id'' then Inl TypeError
      else if visibility \<noteq> None \<and> dict_has kwargs ''visibility'' then Inl TypeError
      else
        let bound_visibility =
              (case visibility of
                 Some v \<Rightarrow> v
               | None \<Rightarrow> or_else (dict_get kwargs ''visibility'') JNull);
            additional_filters = dict_del ''visibility'' kwargs;
            filters = [(''organization_id'', JStr organization_id)]
        in and_then (visibility_filters user_id bound_visibility filters) (\<lambda>filters.
             let filters = dict_update_all additional_filters filters
             in logged lvl ctx DEBUG [''organization_id'', ''user_id'', ''filters''] filters))"

definition document_access_check :: "pydict \<Rightarrow> string \<Rightarrow> string \<Rightarrow> bool" where
  "document_access_check document_metadata user_id organization_id =
     (let doc_org_id = dict_get document_metadata ''organization_id'' in
      if doc_org_id \<noteq> Some (JStr organization_id) then
        (if dict_get document_metadata ''visibility'' = Some (JStr PUBLIC) then True else False)
      else
        let doc_user_id = dict_get document_metadata ''user_id'';
            doc_visibility = (case dict_get document_metadata ''visibility'' of
                                None \<Rightarrow> JStr PRIVATE | Some v \<Rightarrow> v)
        in if doc_user_id = Some (JStr user_id) then True
           else if doc_visibility = JStr PRIVATE then False
           else if doc_visibility = JStr SHARED then True
           else if doc_visibility = JStr PUBLIC then True
           else False)"

section \<open>How the vector store evaluates a filter\<close>

text \<open>
  The filters are written for a store with Mongo-style where-clauses: the entries of a
  filter dictionary are conjuncts; \<open>$or\<close> and \<open>$and\<close> take a list of sub-filters;
  \<open>{"$in": [...]}\<close> is membership; any other value is equality with the stored field,
  and a stored list field matches a value it contains (this is what the agent manager's
  \<open>{"associated_agents": agent_id}\<close> filter relies on).
\<close>

definition value_matches :: "json \<Rightarrow> json option \<Rightarrow> bool" where
  "value_matches cond stored =
     (case stored of
        None \<Rightarrow> False
      | Some s \<Rightarrow>
          (case cond of
             JDict [(opr, JList vs)] \<Rightarrow> opr = ''$in'' \<and> s \<in> set vs
           | _ \<Rightarrow> s = cond \<or> (case s of JList xs \<Rightarrow> cond \<in> set xs | _ \<Rightarrow> False)))"

fun where_matches :: "json \<Rightarrow> pydict \<Rightarrow> bool"
  and all_clauses :: "(string \<times> json) list \<Rightarrow> pydict \<Rightarrow> bool"
  and any_filter :: "json list \<Rightarrow> pydict \<Rightarrow> bool"
  and every_filter :: "json list \<Rightarrow> pydict \<Rightarrow> bool"
where
  "where_matches (JDict kvs) md = all_clauses kvs md"
| "where_matches JNull md = False"
| "where_matches (JBool b) md = False"
| "where_matches (JInt i) md = False"
| "where_matches (JStr s) md = False"
| "where_matches (JList xs) md = False"
| "all_clauses [] md = True"
| "all_clauses ((k, v) # kvs) md =
     ((if k = ''$or'' then (case v of JList fs \<Rightarrow> any_filter fs md | _ \<Rightarrow> False)
       else if k = ''$and'' then (case v of JList fs \<Rightarrow> every_filter fs md | _ \<Rightarrow> False)
       else value_matches v (dict_get md k))
      \<and> all_clauses kvs md)"
| "any_filter [] md = False"
| "any_filter (f # fs) md = (where_matches f md \<or> any_filter fs md)"
| "every_filter [] md = True"
| "every_filter (f # fs) md = (where_matches f md \<and> every_filter fs md)"

section \<open>Properties of the access filters\<close>

lemma dict_get_set: "dict_get (dict_set k v d) k' = (if k' = k then Some v else dict_get d k')"
  by (simp add: dict_get_def dict_set_def update_conv')

lemma dict_get_Nil: "dict_get [] k = None"
  by (simp add: dict_get_def)

lemma dict_get_Cons: "dict_get ((a, b) # d) k = (if k = a then Some b else dict_get d k)"
  by (simp add: dict_get_def)

lemma dict_has_get: "dict_has d k \<longleftrightarrow> dict_get d k \<noteq> None"
  by (simp add: dict_has_def dict_get_def map_of_eq_None_iff)

lemma dict_get_update_all_other:
  "\<not> dict_has src k \<Longrightarrow> dict_get (dict_update_all src dst) k = dict_get dst k"
  unfolding dict_update_all_def
proof (induction src arbitrary: dst)
  case Nil
  then show ?case by simp
next
  case (Cons p src)
  obtain a b where p: "p = (a, b)" by (cases p)
  from Cons.prems p have ne: "k \<noteq> a" and rest: "\<not> dict_has src k"
    by (auto simp: dict_has_def)
  show ?case using Cons.IH [OF rest, of "dict_set a b dst"] ne p
    by (simp add: dict_get_set)
qed

lemma dict_get_update_all_mem:
  "distinct (map fst src) \<Longrightarrow> (k, v) \<in> set src \<Longrightarrow> dict_get (dict_update_all src dst) k = Some v"
proof (induction src arbitrary: dst)
  case Nil
  then show ?case by simp
next
  case (Cons p src)
  obtain a b where p: "p = (a, b)" by (cases p)
  show ?case
  proof (cases "(k, v) = p")
    case True
    with p have kv: "k = a" "v = b" by simp_all
    from Cons.prems(1) p have "\<not> dict_has src a"
      by (simp add: dict_has_def)
    then have "dict_get (dict_update_all src (dict_set a b dst)) a = dict_get (dict_set a b dst) a"
      by (rule dict_get_update_all_other)
    then show ?thesis using p kv
      by (simp add: dict_update_all_def dict_get_set)
  next
    case False
    with Cons.prems have "(k, v) \<in> set src" "distinct (map fst src)" by auto
    then have "dict_get (dict_update_all src (dict_set a b dst)) k = Some v"
      using Cons.IH by blast
    then show ?thesis using p by (simp add: dict_update_all_def)
  qed
qed

lemma all_clauses_lookup:
  "all_clauses kvs md \<Longrightarrow> map_of kvs k = Some v \<Longrightarrow> k \<noteq> ''$or'' \<Longrightarrow> k \<noteq> ''$and''
     \<Longrightarrow> value_matches v (dict_get md k)"
  by (induction kvs) (auto split: if_splits)

lemma value_matches_str:
  "stored = Some (JStr d) \<Longrightarrow> value_matches (JStr s) stored \<longleftrightarrow> d = s"
  by (auto simp: value_matches_def)

lemma org_conjunct_excludes:
  assumes f: "dict_get f ''organization_id'' = Some (JStr org)"
    and md: "dict_get md ''organization_id'' = Some (JStr d)"
    and ne: "d \<noteq> org"
  shows "\<not> where_matches (JDict f) md"
proof
  assume "where_matches (JDict f) md"
  then have "all_clauses f md" by simp
  from all_clauses_lookup [OF this, of "''organization_id''" "JStr org"] f
  have "value_matches (JStr org) (dict_get md ''organization_id'')"
    by (simp add: dict_get_def)
  with md ne show False by (simp add: value_matches_str)
qed

lemma dict_has_del: "dict_has (dict_del k d) k' \<longleftrightarrow> dict_has d k' \<and> k' \<noteq> k"
  by (induction d) (auto simp: dict_has_def dict_del_def)

lemma logged_result: "logged lvl ctx level extra v = Inr x \<Longrightarrow> x = v"
  by (simp add: logged_def split: sum.splits)

lemma log_call_no_context: "log_call lvl [] level extra = Inr () \<longleftrightarrow>
    (level_rank lvl \<le> level_rank level \<longrightarrow> find (\<lambda>key. key \<in> set RECORD_ATTRIBUTES) extra = None)"
  by (auto simp: log_call_def split: option.splits)

lemma custom_visibility_org:
  "dict_get (custom_visibility user has_private n others v [(''organization_id'', JStr org)])
     ''organization_id'' = Some (JStr org)"
  by (simp add: custom_visibility_def dict_get_set dict_get_Cons)

lemma visibility_filters_org:
  "visibility_filters user v [(''organization_id'', JStr org)] = Inr filters
     \<Longrightarrow> dict_get filters ''organization_id'' = Some (JStr org)"
  by (cases v)
     (auto simp: visibility_filters_def custom_visibility_org dict_get_set dict_get_Cons)

lemma get_access_filters_org:
  assumes "get_access_filters lvl ctx org user vis kwargs = Inr f"
  shows "dict_get f ''organization_id'' = Some (JStr org)"
proof -
  from assms have nh: "\<not> dict_has kwargs ''organization_id''"
    by (auto simp: get_access_filters_def split: if_splits)
  from assms obtain v filters where
      vf: "visibility_filters user v [(''organization_id'', JStr org)] = Inr filters"
    and f: "f = dict_update_all (dict_del ''visibility'' kwargs) filters"
    by (auto simp: get_access_filters_def Let_def and_then_def
        split: if_splits sum.splits dest!: logged_result)
  have "\<not> dict_has (dict_del ''visibility'' kwargs) ''organization_id''"
    using nh by (simp add: dict_has_del)
  from dict_get_update_all_other [OF this] visibility_filters_org [OF vf]
  show ?thesis by (simp add: f)
qed

lemma get_access_filters_default:
  assumes "log_call lvl ctx DEBUG [''organization_id'', ''user_id'', ''filters''] = Inr ()"
  shows "get_access_filters lvl ctx org user None []
           = Inr [(''organization_id'', JStr org), (''$or'', default_or user)]"
  using assms
  by (simp add: get_access_filters_def visibility_filters_def dict_update_all_def dict_set_def
      dict_has_def dict_get_def dict_del_def or_else_def and_then_def logged_def)

text \<open>
  When the call gives neither a \<open>visibility\<close> nor a filter named \<open>$or\<close>, the
  returned filter holds the default disjunction.
\<close>

lemma get_access_filters_keeps_default_or:
  assumes "get_access_filters lvl ctx org user None kwargs = Inr f"
    and "\<not> dict_has kwargs ''visibility''" and "\<not> dict_has kwargs ''$or''"
  shows "dict_get f ''$or'' = Some (default_or user)"
proof -
  from assms(2) have "dict_get kwargs ''visibility'' = None" by (simp add: dict_has_get)
  with assms(1)
  have f: "f = dict_update_all (dict_del ''visibility'' kwargs)
                 (dict_set ''$or'' (default_or user) [(''organization_id'', JStr org)])"
    by (auto simp: get_access_filters_def Let_def and_then_def or_else_def visibility_filters_def
        split: if_splits dest!: logged_result)
  have "\<not> dict_has (dict_del ''visibility'' kwargs) ''$or''"
    using assms(3) by (simp add: dict_has_del)
  from dict_get_update_all_other [OF this] show ?thesis by (simp add: f dict_get_set)
qed

text \<open>
  C1, the code at the failing input. The loop \<open>filters[key] = value\<close> over the extra
  filters has no guard: a filter passed under \<open>$or\<close> replaces the default
  disjunction. With it, the filter built for alice matches bob's private document of the
  same organization, which the filter built without it does not.
\<close>

theorem get_access_filters_or_override:
  "get_access_filters INFO [] ''org1'' ''alice'' None
       [(''$or'', JList [JDict [(''visibility'', JStr ''private'')]])]
     = Inr [(''organization_id'', JStr ''org1''),
            (''$or'', JList [JDict [(''visibility'', JStr ''private'')]])]
   \<and> get_access_filters INFO [] ''org1'' ''alice'' None []
     = Inr [(''organization_id'', JStr ''org1''), (''$or'', default_or ''alice'')]
   \<and> where_matches
        (JDict [(''organization_id'', JStr ''org1''),
                (''$or'', JList [JDict [(''visibility'', JStr ''private'')]])])
        [(''organization_id'', JStr ''org1''), (''user_id'', JStr ''bob''),
         (''visibility'', JStr ''private'')]
   \<and> \<not> where_matches
        (JDict [(''organization_id'', JStr ''org1''), (''$or'', default_or ''alice'')])
        [(''organization_id'', JStr ''org1''), (''user_id'', JStr ''bob''),
         (''visibility'', JStr ''private'')]"
  by (simp add: get_access_filters_def visibility_filters_def dict_update_all_def dict_set_def
      dict_has_def dict_get_def dict_del_def or_else_def and_then_def logged_def log_call_def
      value_matches_def default_or_def SHARED_def PUBLIC_def)

text \<open>
  C10. For a document stored under another organization, \<open>document_access_check\<close>
  answers exactly whether the document's visibility is \<open>public\<close>, while no filter
  that \<open>get_access_filters\<close> returns for the caller matches that document: a
  cross-organization public document passes the direct check and is never returned by a
  filtered search.
\<close>

theorem document_access_check_cross_org:
  assumes "dict_get md ''organization_id'' = Some (JStr d)" and "d \<noteq> organization_id"
  shows "document_access_check md user_id organization_id
           = (dict_get md ''visibility'' = Some (JStr PUBLIC))
         \<and> (\<forall>lvl ctx vis kwargs f.
                get_access_filters lvl ctx organization_id user_id vis kwargs = Inr f
                \<longrightarrow> \<not> where_matches (JDict f) md)"
proof -
  from assms have "dict_get md ''organization_id'' \<noteq> Some (JStr organization_id)" by simp
  then have "document_access_check md user_id organization_id
               = (dict_get md ''visibility'' = Some (JStr PUBLIC))"
    by (simp add: document_access_check_def Let_def)
  moreover have "\<forall>lvl ctx vis kwargs f.
                   get_access_filters lvl ctx organization_id user_id vis kwargs = Inr f
                   \<longrightarrow> \<not> where_matches (JDict f) md"
    using org_conjunct_excludes [OF get_access_filters_org assms] by blast
  ultimately show ?thesis by blast
qed

theorem document_access_check_cross_org_witness:
  "document_access_check
       [(''organization_id'', JStr ''org2''), (''user_id'', JStr ''bob''),
        (''visibility'', JStr ''public'')] ''alice'' ''org1''
   \<and> \<not> document_access_check
       [(''organization_id'', JStr ''org2''), (''user_id'', JStr ''bob''),
        (''visibility'', JStr ''shared'')] ''alice'' ''org1''
   \<and> \<not> where_matches (JDict [(''organization_id'', JStr ''org1''), (''$or'', default_or ''alice'')])
       [(''organization_id'', JStr ''org2''), (''user_id'', JStr ''bob''),
        (''visibility'', JStr ''public'')]"
proof -
  let ?pub = "[(''organization_id'', JStr ''org2''), (''user_id'', JStr ''bob''),
               (''visibility'', JStr ''public'')]"
  let ?shr = "[(''organization_id'', JStr ''org2''), (''user_id'', JStr ''bob''),
               (''visibility'', JStr ''shared'')]"
  have p: "dict_get ?pub ''organization_id'' = Some (JStr ''org2'')"
    by (simp add: dict_get_Cons)
  have s: "dict_get ?shr ''organization_id'' = Some (JStr ''org2'')"
    by (simp add: dict_get_Cons)
  have ne: "''org2'' \<noteq> ''org1''" by simp
  have g: "get_access_filters INFO [] ''org1'' ''alice'' None []
             = Inr [(''organization_id'', JStr ''org1''), (''$or'', default_or ''alice'')]"
    by (rule get_access_filters_default) (simp add: log_call_def)
  note pub = document_access_check_cross_org [OF p ne, of "''alice''"]
  from pub have a: "document_access_check ?pub ''alice'' ''org1''"
    by (simp add: dict_get_Cons PUBLIC_def)
  from pub g
  have b: "\<not> where_matches (JDict [(''organization_id'', JStr ''org1''), (''$or'', default_or ''alice'')]) ?pub"
    by blast
  from document_access_check_cross_org [OF s ne, of "''alice''"]
  have c: "\<not> document_access_check ?shr ''alice'' ''org1''"
    by (simp add: dict_get_Cons PUBLIC_def)
  from a b c show ?thesis by blast
qed

section \<open>Provider interfaces seen by the retriever and the generator\<close>

text \<open>
  The retriever and the generator use the providers only through their interfaces
  (\<open>BaseLLMProvider\<close>, \<open>BaseVectorDatabase\<close>): a provider is a record of its
  methods, a raised exception is the \<open>Inl\<close> result. \<open>get_llm_provider\<close> and
  \<open>get_vector_db\<close> appear as the two resolution functions \<open>get_llm\<close> and
  \<open>get_vdb\<close>. A search result is the dictionary
  \<open>{"id", "text", "metadata", "score"}\<close> the providers build.
\<close>

record hit =
  hit_id :: string
  hit_text :: string
  hit_metadata :: pydict
  hit_score :: real

record llm_provider =
  llm_generate :: "string \<Rightarrow> string option \<Rightarrow> real \<Rightarrow> int option \<Rightarrow> py_error + string"
  llm_get_embeddings :: "string list \<Rightarrow> py_error + real list list"

record vector_db =
  vdb_search :: "real list \<Rightarrow> pydict \<Rightarrow> int \<Rightarrow> py_error + hit list"

text \<open>Python's \<open>xs[:n]\<close>: a negative \<open>n\<close> counts from the end.\<close>

definition py_slice_to :: "int \<Rightarrow> 'a list \<Rightarrow> 'a list" where
  "py_slice_to n xs = (if 0 \<le> n then take (nat n) xs else take (length xs - nat (- n)) xs)"

section \<open>services/rag/retriever.py\<close>

definition SECURITY_KEYS :: "string list" where
  "SECURITY_KEYS = [''organization_id'', ''user_id'', ''$or'']"

text \<open>
  Lines 50 to 61: the access filters of the caller, then the merge of \<open>filter_dict\<close>
  (\<open>None\<close> and the empty dictionary are both falsy and skip the loop).
\<close>

definition merge_filter_dict :: "pydict option \<Rightarrow> pydict \<Rightarrow> pydict" where
  "merge_filter_dict filter_dict access_filters =
     (case filter_dict of
        None \<Rightarrow> access_filters
      | Some fd \<Rightarrow>
          fold (\<lambda>(key, value) af. if key \<in> set SECURITY_KEYS then af else dict_set key value af)
            fd access_filters)"

definition search_filters ::
  "log_level \<Rightarrow> string list \<Rightarrow> string \<Rightarrow> string \<Rightarrow> pydict option \<Rightarrow> py_error + pydict" where
  "search_filters lvl ctx organization_id user_id filter_dict =
     and_then (get_access_filters lvl ctx organization_id user_id None [])
       (\<lambda>access_filters. Inr (merge_filter_dict filter_dict access_filters))"

text \<open>
  What follows the search (lines 70 to 87): the \<open>INFO\<close> record of the result, then the
  truncation.
\<close>

definition after_search :: "log_level \<Rightarrow> string list \<Rightarrow> int \<Rightarrow> bool \<Rightarrow> hit list \<Rightarrow> py_error + hit list" where
  "after_search lvl ctx limit rerank documents =
     and_then (log_call lvl ctx INFO [''query'', ''organization_id'', ''user_id'', ''document_count''])
       (\<lambda>u. Inr (if rerank \<and> int (length documents) > limit then py_slice_to limit documents
                   else documents))"

text \<open>
  The \<open>try\<close> block (\<open>ctx\<close> is the context the function has entered), then the
  function with its handler, which logs the error and raises again.
\<close>

definition retrieve_body ::
  "log_level \<Rightarrow> string list \<Rightarrow> (string \<Rightarrow> py_error + llm_provider) \<Rightarrow> (string \<Rightarrow> py_error + vector_db) \<Rightarrow>
   string \<Rightarrow> string \<Rightarrow> string \<Rightarrow> pydict option \<Rightarrow> int \<Rightarrow> bool \<Rightarrow> py_error + hit list" where
  "retrieve_body lvl ctx get_llm get_vdb query organization_id user_id filter_dict limit rerank =
     and_then (get_llm organization_id) (\<lambda>llm.
     and_then (get_vdb organization_id) (\<lambda>vdb.
     and_then (llm_get_embeddings llm [query]) (\<lambda>query_embeddings.
     and_then (case query_embeddings of [] \<Rightarrow> Inl IndexError | e # _ \<Rightarrow> Inr e) (\<lambda>query_embedding.
     and_then (search_filters lvl ctx organization_id user_id filter_dict) (\<lambda>access_filters.
     and_then (vdb_search vdb query_embedding access_filters (if rerank then limit * 2 else limit))
       (after_search lvl ctx limit rerank))))))"

definition retrieve_relevant_documents ::
  "log_level \<Rightarrow> string list \<Rightarrow> (string \<Rightarrow> py_error + llm_provider) \<Rightarrow> (string \<Rightarrow> py_error + vector_db) \<Rightarrow>
   string \<Rightarrow> string \<Rightarrow> string \<Rightarrow> pydict option \<Rightarrow> int \<Rightarrow> bool \<Rightarrow> py_error + hit list" where
  "retrieve_relevant_documents lvl ctx0 get_llm get_vdb query organization_id user_id filter_dict
       limit rerank =
     (let ctx = logging_context organization_id user_id ctx0
      in case retrieve_body lvl ctx get_llm get_vdb query organization_id user_id filter_dict
                limit rerank of
           Inl e \<Rightarrow> log_and_raise lvl ctx [''query'', ''organization_id'', ''user_id''] e
         | Inr documents \<Rightarrow> Inr documents)"

section \<open>services/rag/generator.py\<close>

definition NL :: string where
  "NL = [CHR 0x0A]"

fun show_nat :: "nat \<Rightarrow> string" where
  "show_nat n =
     (if n < 10 then [char_of (48 + n)] else show_nat (n div 10) @ [char_of (48 + n mod 10)])"

fun join :: "string \<Rightarrow> string list \<Rightarrow> string" where
  "join sep [] = []"
| "join sep [x] = x"
| "join sep (x # y # ys) = x @ sep @ join sep (y # ys)"

text \<open>
  \<open>format_documents_for_context\<close>. The f-strings print metadata values of any type;
  \<open>fmt\<close> is Python's \<open>str\<close> on such a value.
\<close>

definition source_field :: "(json \<Rightarrow> string) \<Rightarrow> pydict \<Rightarrow> string \<Rightarrow> string \<Rightarrow> string list" where
  "source_field fmt metadata key label =
     (case dict_get metadata key of None \<Rightarrow> [] | Some v \<Rightarrow> [label @ '': '' @ fmt v])"

definition format_document :: "(json \<Rightarrow> string) \<Rightarrow> nat \<Rightarrow> hit \<Rightarrow> string" where
  "format_document fmt i doc =
     (let text = hit_text doc;
          metadata = hit_metadata doc;
          source_info = source_field fmt metadata ''title'' ''Title''
                      @ source_field fmt metadata ''source'' ''Source''
                      @ source_field fmt metadata ''url'' ''URL''
                      @ source_field fmt metadata ''date'' ''Date''
                      @ source_field fmt metadata ''author'' ''Author''
      in if source_info \<noteq> []
         then ''Document '' @ show_nat (i + 1) @ '' ('' @ join '' | '' source_info @ ''):''
                @ NL @ text @ NL
         else ''Document '' @ show_nat (i + 1) @ '':'' @ NL @ text @ NL)"

definition format_documents_for_context :: "(json \<Rightarrow> string) \<Rightarrow> hit list \<Rightarrow> string" where
  "format_documents_for_context fmt documents =
     join NL (map (\<lambda>(i, doc). format_document fmt i doc) (enumerate 0 documents))"

definition UNGROUNDED_SYSTEM :: string where
  "UNGROUNDED_SYSTEM =
     ''You are a helpful assistant. If you don't know the answer to a question, ''
     @ ''just say that you don't have enough information to provide a reliable answer.''"

definition RAG_SYSTEM :: string where
  "RAG_SYSTEM =
     ''You are a helpful assistant with access to a knowledge base. ''
     @ ''Answer the user's question based on the provided context. ''
     @ ''If the context doesn't contain the necessary information to answer the question, ''
     @ ''just say that you don't have enough information to provide a reliable answer. ''
     @ ''Don't make up information that's not in the context.''"

definition rag_prompt :: "string \<Rightarrow> string \<Rightarrow> string" where
  "rag_prompt query context =
     ''I need information about the following question:'' @ NL @ query @ NL @ NL
     @ ''Here is the relevant context from our knowledge base:'' @ NL @ NL
     @ context @ NL @ NL
     @ ''Based on this context, please provide a comprehensive answer to the question.''"

text \<open>\<open>system_message or default\<close>: \<open>None\<close> and the empty string are both falsy.\<close>

definition or_default :: "string option \<Rightarrow> string \<Rightarrow> string" where
  "or_default system_message dflt =
     (case system_message of None \<Rightarrow> dflt | Some s \<Rightarrow> if s = [] then dflt else s)"

text \<open>
  \<open>generate_answer\<close>: the \<open>try\<close> block, then the function with its handler, which
  logs the error and raises again. The retriever is called inside the context the
  function has entered.
\<close>

definition generate_body ::
  "log_level \<Rightarrow> string list \<Rightarrow> (string \<Rightarrow> py_error + llm_provider) \<Rightarrow> (string \<Rightarrow> py_error + vector_db) \<Rightarrow>
   (json \<Rightarrow> string) \<Rightarrow> string \<Rightarrow> string \<Rightarrow> string \<Rightarrow> pydict option \<Rightarrow> string option \<Rightarrow> real \<Rightarrow>
   int option \<Rightarrow> int \<Rightarrow> py_error + (string \<times> hit list)" where
  "generate_body lvl ctx get_llm get_vdb fmt query organization_id user_id filter_dict
       system_message temperature max_tokens num_documents =
     and_then (retrieve_relevant_documents lvl ctx get_llm get_vdb query organization_id user_id
                 filter_dict num_documents True) (\<lambda>documents.
       if documents = [] then
         and_then (get_llm organization_id) (\<lambda>llm.
           let default_system = or_default system_message UNGROUNDED_SYSTEM in
           and_then (llm_generate llm query (Some default_system) temperature max_tokens)
             (\<lambda>response.
                logged lvl ctx INFO [''query'', ''organization_id'', ''user_id'']
                  (response, [])))
       else
         let context = format_documents_for_context fmt documents in
         and_then (get_llm organization_id) (\<lambda>llm.
           let rag_system_message = or_default system_message RAG_SYSTEM in
           and_then (llm_generate llm (rag_prompt query context) (Some rag_system_message)
                       temperature max_tokens)
             (\<lambda>response.
                logged lvl ctx INFO
                  [''query'', ''organization_id'', ''user_id'', ''document_count'']
                  (response, documents))))"

definition generate_answer ::
  "log_level \<Rightarrow> string list \<Rightarrow> (string \<Rightarrow> py_error + llm_provider) \<Rightarrow> (string \<Rightarrow> py_error + vector_db) \<Rightarrow>
   (json \<Rightarrow> string) \<Rightarrow> string \<Rightarrow> string \<Rightarrow> string \<Rightarrow> pydict option \<Rightarrow> string option \<Rightarrow> real \<Rightarrow>
   int option \<Rightarrow> int \<Rightarrow> py_error + (string \<times> hit list)" where
  "generate_answer lvl ctx0 get_llm get_vdb fmt query organization_id user_id filter_dict
       system_message temperature max_tokens num_documents =
     (let ctx = logging_context organization_id user_id ctx0
      in case generate_body lvl ctx get_llm get_vdb fmt query organization_id user_id filter_dict
                system_message temperature max_tokens num_documents of
           Inl e \<Rightarrow> log_and_raise lvl ctx [''query'', ''organization_id'', ''user_id''] e
         | Inr answer \<Rightarrow> Inr answer)"

section \<open>Concrete providers for the examples\<close>

text \<open>
  \<open>echo_llm\<close> answers with the system message it was given and embeds every text as
  \<open>[0]\<close>; \<open>silent_llm\<close> answers with the empty string (the OpenAI provider returns
  \<open>response.choices[0].message.content or ""\<close>); \<open>echo_vdb\<close> returns one hit whose
  metadata is the filter it was searched with; \<open>empty_vdb\<close> finds nothing.
\<close>

definition echo_llm :: llm_provider where
  "echo_llm = \<lparr>llm_generate = (\<lambda>prompt system_message temperature max_tokens.
                                 Inr (case system_message of None \<Rightarrow> [] | Some s \<Rightarrow> s)),
               llm_get_embeddings = (\<lambda>texts. Inr (map (\<lambda>t. [0]) texts))\<rparr>"


definition echo_vdb :: vector_db where
  "echo_vdb = \<lparr>vdb_search = (\<lambda>query_embedding filter_dict limit.
                   Inr [\<lparr>hit_id = ''d1'', hit_text = ''text'', hit_metadata = filter_dict,
                         hit_score = 1\<rparr>])\<rparr>"



section \<open>Properties of the retriever and the generator\<close>

lemma merge_fold_security:
  "k \<in> set SECURITY_KEYS \<Longrightarrow>
   dict_get (fold (\<lambda>(key, value) af. if key \<in> set SECURITY_KEYS then af else dict_set key value af)
               fd af) k = dict_get af k"
proof (induction fd arbitrary: af)
  case Nil
  then show ?case by simp
next
  case (Cons p fd)
  obtain a b where p: "p = (a, b)" by (cases p)
  show ?case using Cons p by (auto simp: dict_get_set)
qed

lemma merge_fold_absent:
  "\<not> dict_has fd k \<Longrightarrow>
   dict_get (fold (\<lambda>(key, value) af. if key \<in> set SECURITY_KEYS then af else dict_set key value af)
               fd af) k = dict_get af k"
proof (induction fd arbitrary: af)
  case Nil
  then show ?case by simp
next
  case (Cons p fd)
  obtain a b where p: "p = (a, b)" by (cases p)
  from Cons.prems p have ne: "k \<noteq> a" and rest: "\<not> dict_has fd k"
    by (auto simp: dict_has_def)
  show ?case using Cons.IH [OF rest] ne p by (simp add: dict_get_set)
qed

lemma merge_fold_added:
  "distinct (map fst fd) \<Longrightarrow> (k, v) \<in> set fd \<Longrightarrow> k \<notin> set SECURITY_KEYS \<Longrightarrow>
   dict_get (fold (\<lambda>(key, value) af. if key \<in> set SECURITY_KEYS then af else dict_set key value af)
               fd af) k = Some v"
proof (induction fd arbitrary: af)
  case Nil
  then show ?case by simp
next
  case (Cons p fd)
  obtain a b where p: "p = (a, b)" by (cases p)
  show ?case
  proof (cases "(k, v) = p")
    case True
    with p have kv: "k = a" "v = b" by simp_all
    from Cons.prems(1) p have "\<not> dict_has fd a" by (simp add: dict_has_def)
    from merge_fold_absent [OF this] show ?thesis
      using p kv Cons.prems(3) by (simp add: dict_get_set)
  next
    case False
    with Cons.prems have "(k, v) \<in> set fd" "distinct (map fst fd)" by auto
    from Cons.IH [OF this(2) this(1) Cons.prems(3)] show ?thesis using p by simp
  qed
qed



text \<open>
  A record that is created with an \<open>extra\<close> key the context has already set is not
  created: the call raises \<open>KeyError\<close>.
\<close>

lemma log_call_in_context:
  assumes "k \<in> set extra" and "k \<in> set ctx" and "level_rank lvl \<le> level_rank level"
  shows "\<exists>key. log_call lvl ctx level extra = Inl (overwrite_error key)"
proof -
  from assms(1,2)
  have "find (\<lambda>key. key \<in> set RECORD_ATTRIBUTES \<or> key \<in> set ctx) extra \<noteq> None"
    by (auto simp: find_None_iff)
  with assms(3) show ?thesis by (auto simp: log_call_def)
qed

lemma organization_in_context:
  "org \<noteq> [] \<Longrightarrow> ''organization_id'' \<in> set (logging_context org user ctx0)"
  by (simp add: logging_context_def)

lemma get_access_filters_default_raises:
  assumes "log_call lvl ctx DEBUG [''organization_id'', ''user_id'', ''filters''] = Inl e"
  shows "get_access_filters lvl ctx org user None [] = Inl e"
  using assms
  by (simp add: get_access_filters_def visibility_filters_def dict_update_all_def dict_set_def
      dict_has_def dict_get_def dict_del_def or_else_def and_then_def logged_def)

text \<open>
  C3. Let the caller supply \<open>filter_dict\<close> (a dictionary: its keys are distinct).
  When the \<open>DEBUG\<close> record of the access filter builder is created without error (it
  always is unless the logger's level is \<open>DEBUG\<close>), the retriever calls the vector
  database's \<open>search\<close> with a filter \<open>F\<close> that agrees with the access filters
  \<open>A\<close> of the caller on \<open>organization_id\<close>, \<open>user_id\<close> and \<open>$or\<close>, holds
  every \<open>filter_dict\<close> entry under another key, and agrees with \<open>A\<close> on every key
  \<open>filter_dict\<close> does not mention; what the retriever returns is the outcome of that
  search followed by the result record and the truncation, an error going through the
  handler. When creating the \<open>DEBUG\<close> record raises, nothing is searched and the error
  goes through the handler.
\<close>

theorem retrieve_relevant_documents_search_filters:
  assumes "get_llm org = Inr llm" and "get_vdb org = Inr vdb"
    and "llm_get_embeddings llm [query] = Inr (qe # es)"
    and "distinct (map fst fd)"
  shows "(log_call lvl (logging_context org user ctx0) DEBUG [''organization_id'', ''user_id'', ''filters''] = Inr () \<longrightarrow>
           (\<exists>A F. get_access_filters lvl (logging_context org user ctx0) org user None [] = Inr A
              \<and> search_filters lvl (logging_context org user ctx0) org user (Some fd) = Inr F
              \<and> retrieve_relevant_documents lvl ctx0 get_llm get_vdb query org user (Some fd) limit rerank
                  = (case and_then (vdb_search vdb qe F (if rerank then limit * 2 else limit))
                            (after_search lvl (logging_context org user ctx0) limit rerank) of
                       Inl e \<Rightarrow> log_and_raise lvl (logging_context org user ctx0) [''query'', ''organization_id'', ''user_id''] e
                     | Inr documents \<Rightarrow> Inr documents)
              \<and> (\<forall>k \<in> set SECURITY_KEYS. dict_get F k = dict_get A k)
              \<and> (\<forall>k v. (k, v) \<in> set fd \<and> k \<notin> set SECURITY_KEYS \<longrightarrow> dict_get F k = Some v)
              \<and> (\<forall>k. \<not> dict_has fd k \<longrightarrow> dict_get F k = dict_get A k)))
         \<and> (\<forall>e. log_call lvl (logging_context org user ctx0) DEBUG [''organization_id'', ''user_id'', ''filters''] = Inl e \<longrightarrow>
                retrieve_relevant_documents lvl ctx0 get_llm get_vdb query org user (Some fd) limit rerank = log_and_raise lvl (logging_context org user ctx0) [''query'', ''organization_id'', ''user_id''] e)"
proof -
  define A where "A = [(''organization_id'', JStr org), (''$or'', default_or user)]"
  define F where "F = merge_filter_dict (Some fd) A"
  have k1: "\<forall>k \<in> set SECURITY_KEYS. dict_get F k = dict_get A k"
    by (simp add: F_def merge_filter_dict_def merge_fold_security)
  have k2: "\<forall>k v. (k, v) \<in> set fd \<and> k \<notin> set SECURITY_KEYS \<longrightarrow> dict_get F k = Some v"
    using merge_fold_added [OF assms(4)] by (simp add: F_def merge_filter_dict_def)
  have k3: "\<forall>k. \<not> dict_has fd k \<longrightarrow> dict_get F k = dict_get A k"
    by (simp add: F_def merge_filter_dict_def merge_fold_absent)
  have created: "\<exists>A F. get_access_filters lvl (logging_context org user ctx0) org user None [] = Inr A
              \<and> search_filters lvl (logging_context org user ctx0) org user (Some fd) = Inr F
              \<and> retrieve_relevant_documents lvl ctx0 get_llm get_vdb query org user (Some fd) limit rerank
                  = (case and_then (vdb_search vdb qe F (if rerank then limit * 2 else limit))
                            (after_search lvl (logging_context org user ctx0) limit rerank) of
                       Inl e \<Rightarrow> log_and_raise lvl (logging_context org user ctx0) [''query'', ''organization_id'', ''user_id''] e
                     | Inr documents \<Rightarrow> Inr documents)
              \<and> (\<forall>k \<in> set SECURITY_KEYS. dict_get F k = dict_get A k)
              \<and> (\<forall>k v. (k, v) \<in> set fd \<and> k \<notin> set SECURITY_KEYS \<longrightarrow> dict_get F k = Some v)
              \<and> (\<forall>k. \<not> dict_has fd k \<longrightarrow> dict_get F k = dict_get A k)"
    if ok: "log_call lvl (logging_context org user ctx0) DEBUG [''organization_id'', ''user_id'', ''filters''] = Inr ()"
  proof -
    have a: "get_access_filters lvl (logging_context org user ctx0) org user None [] = Inr A"
      unfolding A_def using ok by (rule get_access_filters_default)
    have f: "search_filters lvl (logging_context org user ctx0) org user (Some fd) = Inr F"
      by (simp add: search_filters_def a and_then_def F_def)
    have r: "retrieve_relevant_documents lvl ctx0 get_llm get_vdb query org user (Some fd) limit rerank
             = (case and_then (vdb_search vdb qe F (if rerank then limit * 2 else limit))
                       (after_search lvl (logging_context org user ctx0) limit rerank) of
                  Inl e \<Rightarrow> log_and_raise lvl (logging_context org user ctx0) [''query'', ''organization_id'', ''user_id''] e
                | Inr documents \<Rightarrow> Inr documents)"
      unfolding retrieve_relevant_documents_def retrieve_body_def Let_def using assms(1-3) f
      by (simp add: and_then_def)
    from a f r k1 k2 k3 show ?thesis by blast
  qed
  have raised: "retrieve_relevant_documents lvl ctx0 get_llm get_vdb query org user (Some fd) limit rerank = log_and_raise lvl (logging_context org user ctx0) [''query'', ''organization_id'', ''user_id''] e"
    if bad: "log_call lvl (logging_context org user ctx0) DEBUG [''organization_id'', ''user_id'', ''filters''] = Inl e" for e
  proof -
    have "search_filters lvl (logging_context org user ctx0) org user (Some fd) = Inl e"
      by (simp add: search_filters_def get_access_filters_default_raises [OF bad] and_then_def)
    then show ?thesis
      unfolding retrieve_relevant_documents_def retrieve_body_def Let_def using assms(1-3)
      by (simp add: and_then_def)
  qed
  from created raised show ?thesis by blast
qed

theorem retrieve_relevant_documents_search_filters_witness:
  "retrieve_relevant_documents WARNING [] (\<lambda>org. Inr echo_llm) (\<lambda>org. Inr echo_vdb) ''q'' ''org1''
       ''alice''
       (Some [(''organization_id'', JStr ''org2''), (''$or'', JList []), (''topic'', JStr ''x'')])
       5 True
     = Inr [\<lparr>hit_id = ''d1'', hit_text = ''text'',
             hit_metadata = [(''organization_id'', JStr ''org1''), (''$or'', default_or ''alice''),
                             (''topic'', JStr ''x'')],
             hit_score = 1\<rparr>]"
proof -
  let ?fd = "[(''organization_id'', JStr ''org2''), (''$or'', JList []), (''topic'', JStr ''x'')]"
  let ?F = "[(''organization_id'', JStr ''org1''), (''$or'', default_or ''alice''),
             (''topic'', JStr ''x'')]"
  let ?ctx = "logging_context ''org1'' ''alice'' []"
  have h3: "llm_get_embeddings echo_llm [''q''] = Inr ([0] # [])"
    by (simp add: echo_llm_def)
  have h4: "distinct (map fst ?fd)" by simp
  have h5: "log_call WARNING ?ctx DEBUG [''organization_id'', ''user_id'', ''filters''] = Inr ()"
    by (simp add: log_call_def)
  from retrieve_relevant_documents_search_filters
         [where get_llm = "\<lambda>org. Inr echo_llm" and get_vdb = "\<lambda>org. Inr echo_vdb"
            and llm = echo_llm and vdb = echo_vdb and org = "''org1''" and user = "''alice''"
            and limit = 5 and rerank = True and lvl = WARNING and ?ctx0.0 = "[]",
          OF refl refl h3 h4] h5
  obtain F where sf: "search_filters WARNING ?ctx ''org1'' ''alice'' (Some ?fd) = Inr F"
    and r: "retrieve_relevant_documents WARNING [] (\<lambda>org. Inr echo_llm) (\<lambda>org. Inr echo_vdb) ''q''
              ''org1'' ''alice'' (Some ?fd) 5 True
            = (case and_then (vdb_search echo_vdb [0] F (if True then 5 * 2 else 5))
                      (after_search WARNING ?ctx 5 True) of
                 Inl e \<Rightarrow> log_and_raise WARNING ?ctx [''query'', ''organization_id'', ''user_id''] e
               | Inr documents \<Rightarrow> Inr documents)"
    by blast
  have "search_filters WARNING ?ctx ''org1'' ''alice'' (Some ?fd) = Inr ?F"
    by (simp add: search_filters_def get_access_filters_default [OF h5] and_then_def
        merge_filter_dict_def SECURITY_KEYS_def dict_set_def)
  with sf have F: "F = ?F" by simp
  show ?thesis unfolding r F
    by (simp add: and_then_def echo_vdb_def after_search_def log_call_def)
qed



lemma retrieve_body_logged:
  "retrieve_body lvl ctx get_llm get_vdb query org user fd limit rerank = Inr docs
     \<Longrightarrow> log_call lvl ctx INFO [''query'', ''organization_id'', ''user_id'', ''document_count'']
           = Inr ()"
  by (auto simp: retrieve_body_def and_then_def after_search_def split: sum.splits list.splits)

text \<open>
  Under a logger level of \<open>INFO\<close> or lower (the level \<open>setup_logging\<close> sets from the
  default \<open>LOG_LEVEL\<close>) and for an organization id that is not empty, the retriever
  and the generator raise \<open>KeyError\<close> whatever the providers do: the result record
  of the retriever names \<open>organization_id\<close>, which its logging context has set, and so
  does the error record of each handler.
\<close>

lemma retrieve_relevant_documents_raises_under_info:
  assumes "level_rank lvl \<le> level_rank INFO" and "org \<noteq> []"
  shows "\<exists>key. retrieve_relevant_documents lvl ctx0 get_llm get_vdb query org user fd limit rerank
                 = Inl (overwrite_error key)"
proof -
  let ?ctx = "logging_context org user ctx0"
  from assms(1) have le: "level_rank lvl \<le> level_rank ERROR" by simp
  from log_call_in_context [OF _ organization_in_context [OF assms(2)] assms(1)]
  obtain k1 where
    i: "log_call lvl ?ctx INFO [''query'', ''organization_id'', ''user_id'', ''document_count'']
          = Inl (overwrite_error k1)"
    by fastforce
  from log_call_in_context [OF _ organization_in_context [OF assms(2)] le]
  obtain k2 where e: "log_call lvl ?ctx ERROR [''query'', ''organization_id'', ''user_id''] = Inl (overwrite_error k2)"
    by fastforce
  show ?thesis
  proof (cases "retrieve_body lvl ?ctx get_llm get_vdb query org user fd limit rerank")
    case (Inl err)
    then show ?thesis
      by (auto simp: retrieve_relevant_documents_def Let_def log_and_raise_def e)
  next
    case (Inr docs)
    from retrieve_body_logged [OF this] i show ?thesis by simp
  qed
qed

lemma generate_answer_raises_under_info:
  assumes "level_rank lvl \<le> level_rank INFO" and "org \<noteq> []"
  shows "\<exists>key. generate_answer lvl ctx0 get_llm get_vdb fmt query org user fd sm temp mt num
                 = Inl (overwrite_error key)"
proof -
  let ?ctx = "logging_context org user ctx0"
  from assms(1) have le: "level_rank lvl \<le> level_rank ERROR" by simp
  from log_call_in_context [OF _ organization_in_context [OF assms(2)] le]
  obtain k2 where e: "log_call lvl ?ctx ERROR [''query'', ''organization_id'', ''user_id''] = Inl (overwrite_error k2)"
    by fastforce
  from retrieve_relevant_documents_raises_under_info [OF assms]
  obtain k1 where
    "retrieve_relevant_documents lvl ?ctx get_llm get_vdb query org user fd num True
       = Inl (overwrite_error k1)"
    by blast
  then have "generate_body lvl ?ctx get_llm get_vdb fmt query org user fd sm temp mt num
               = Inl (overwrite_error k1)"
    by (simp add: generate_body_def and_then_def)
  then show ?thesis by (auto simp: generate_answer_def Let_def log_and_raise_def e)
qed




section \<open>services/llm_providers/openai.py: get_embeddings\<close>

text \<open>
  \<open>create\<close> is \<open>self.client.embeddings.create\<close> on one batch of texts: it raises or
  returns \<open>response.data\<close>, a list of items with an \<open>index\<close> (a position in the
  batch) and an \<open>embedding\<close>. The loop \<open>for i in range(0, len(texts), batch_size)\<close>
  carries \<open>i\<close> and \<open>all_embeddings\<close>; \<open>sorted\<close> is stable, as \<open>sort_key\<close> is.
  The pause between batches has no effect on the result.
\<close>

definition batch_size :: nat where
  "batch_size = 100"

function get_embeddings_loop ::
  "(string list \<Rightarrow> py_error + (nat \<times> real list) list) \<Rightarrow> string list \<Rightarrow> nat \<Rightarrow> real list list
     \<Rightarrow> py_error + real list list" where
  "get_embeddings_loop create texts i all_embeddings =
     (if i < length texts then
        (case create (take batch_size (drop i texts)) of
           Inl e \<Rightarrow> Inl e
         | Inr data \<Rightarrow>
             (let sorted_embeddings = sort_key fst data;
                  batch_embeddings = map snd sorted_embeddings
              in get_embeddings_loop create texts (i + batch_size)
                   (all_embeddings @ batch_embeddings)))
      else Inr all_embeddings)"
  by pat_completeness auto
termination
  by (relation "measure (\<lambda>(create, texts, i, all_embeddings). length texts - i)")
     (auto simp: batch_size_def)

declare get_embeddings_loop.simps [simp del]

definition get_embeddings ::
  "(string list \<Rightarrow> py_error + (nat \<times> real list) list) \<Rightarrow> string list \<Rightarrow> py_error + real list list" where
  "get_embeddings create texts = get_embeddings_loop create texts 0 []"

lemma sort_indexed_permutation:
  assumes "mset data = mset (enumerate 0 es)"
  shows "map snd (sort_key fst data) = es"
proof -
  have "set data = set (enumerate 0 es)"
    using assms by (rule mset_eq_setD)
  moreover have "inj_on fst (set (enumerate 0 es))"
    by (rule inj_onI) (auto simp: in_set_enumerate_eq)
  ultimately have inj: "inj_on fst (set data)" by simp
  have srt: "sorted (map fst (enumerate 0 es))" by simp
  from sort_key_inj_key_eq [OF assms inj srt]
  have "sort_key fst data = enumerate 0 es" .
  then show ?thesis by simp
qed

lemma get_embeddings_loop_order:
  assumes "\<And>batch. batch \<noteq> [] \<Longrightarrow> length batch \<le> batch_size \<Longrightarrow>
             \<exists>data. create batch = Inr data \<and> mset data = mset (enumerate 0 (map emb batch))"
  shows "get_embeddings_loop create texts i acc = Inr (acc @ map emb (drop i texts))"
  using assms
proof (induction create texts i acc rule: get_embeddings_loop.induct)
  case (1 create texts i acc)
  show ?case
  proof (cases "i < length texts")
    case False
    then show ?thesis by (subst get_embeddings_loop.simps) simp
  next
    case True
    let ?batch = "take batch_size (drop i texts)"
    from True have ne: "?batch \<noteq> []" by (simp add: batch_size_def)
    have le: "length ?batch \<le> batch_size" by simp
    from "1.prems" [OF ne le] obtain data where d: "create ?batch = Inr data"
      and m: "mset data = mset (enumerate 0 (map emb ?batch))" by blast
    have s: "map snd (sort_key fst data) = map emb ?batch"
      using m by (rule sort_indexed_permutation)
    have step: "get_embeddings_loop create texts i acc
                  = get_embeddings_loop create texts (i + batch_size) (acc @ map emb ?batch)"
      by (subst get_embeddings_loop.simps) (simp add: True d s Let_def)
    have ih: "get_embeddings_loop create texts (i + batch_size) (acc @ map emb ?batch)
                = Inr ((acc @ map emb ?batch) @ map emb (drop (i + batch_size) texts))"
      using "1.IH" [OF True d refl refl "1.prems"] s by simp
    have "map emb ?batch @ map emb (drop (i + batch_size) texts) = map emb (drop i texts)"
      by (metis add.commute append_take_drop_id drop_drop map_append)
    then show ?thesis using step ih by simp
  qed
qed

text \<open>
  C8. Whenever the backend answers each batch with one item per text of the batch, the
  item of position \<open>j\<close> carrying the embedding of the batch's \<open>j\<close>-th text, in any
  order, \<open>get_embeddings\<close> returns the embeddings of the input texts, one per text and
  in input order, whatever the number of batches.
\<close>

theorem get_embeddings_preserves_order:
  assumes "\<And>batch. batch \<noteq> [] \<Longrightarrow> length batch \<le> batch_size \<Longrightarrow>
             \<exists>data. create batch = Inr data \<and> mset data = mset (enumerate 0 (map emb batch))"
  shows "get_embeddings create texts = Inr (map emb texts)"
  using get_embeddings_loop_order [OF assms, of texts 0 "[]"]
  by (simp add: get_embeddings_def)

text \<open>
  A backend that returns the items of every batch in reverse order, and the embedding
  \<open>[length t]\<close> of a text \<open>t\<close>.
\<close>

definition length_embedding :: "string \<Rightarrow> real list" where
  "length_embedding t = [real (length t)]"

definition reversing_backend :: "string list \<Rightarrow> py_error + (nat \<times> real list) list" where
  "reversing_backend batch = Inr (rev (enumerate 0 (map length_embedding batch)))"

theorem get_embeddings_preserves_order_witness:
  "get_embeddings reversing_backend [''a'', ''bb'', ''ccc''] = Inr [[1], [2], [3]]
   \<and> get_embeddings reversing_backend (replicate 150 ''a'' @ [''bb''])
       = Inr (replicate 150 [1] @ [[2]])"
proof -
  have h: "\<And>batch. batch \<noteq> [] \<Longrightarrow> length batch \<le> batch_size \<Longrightarrow>
             \<exists>data. reversing_backend batch = Inr data
                    \<and> mset data = mset (enumerate 0 (map length_embedding batch))"
    by (simp add: reversing_backend_def)
  note t = get_embeddings_preserves_order [of reversing_backend length_embedding, OF h]
  have a: "get_embeddings reversing_backend [''a'', ''bb'', ''ccc''] = Inr [[1], [2], [3]]"
    using t [of "[''a'', ''bb'', ''ccc'']"] by (simp add: length_embedding_def)
  have b: "get_embeddings reversing_backend (replicate 150 ''a'' @ [''bb''])
             = Inr (replicate 150 [1] @ [[2]])"
    using t [of "replicate 150 ''a'' @ [''bb'']"] by (simp add: length_embedding_def)
  from a b show ?thesis by blast
qed

section \<open>core/config.py: settings and tenant configuration\<close>

text \<open>
  A tenant configuration is the dictionary \<open>COMPANY_CONFIGS[organization_id]\<close>; the
  record gives the keys the registries and the providers read, each absent (\<open>None\<close>)
  or present with a value of the type the code expects.
\<close>

record company_config =
  cfg_llm_provider :: "string option"
  cfg_vector_db :: "string option"
  cfg_shared_vector_db :: "bool option"
  cfg_openai_model :: "string option"
  cfg_openai_embedding_model :: "string option"
  cfg_openai_api_key :: "string option"
  cfg_ollama_model :: "string option"
  cfg_ollama_api_base :: "string option"

record settings =
  DEFAULT_LLM_PROVIDER :: string
  DEFAULT_VECTOR_DB :: string
  SHARED_VECTOR_DB :: bool
  OPENAI_API_KEY :: "string option"
  OPENAI_EMBEDDING_MODEL :: string
  OPENAI_DEFAULT_MODEL :: string
  OLLAMA_API_BASE :: string
  OLLAMA_DEFAULT_MODEL :: string
  CHROMA_COLLECTION_NAME :: string
  COMPANY_CONFIGS :: "(string \<times> company_config) list"

definition get_company_config :: "settings \<Rightarrow> string \<Rightarrow> company_config" where
  "get_company_config s organization_id =
     (case map_of (COMPANY_CONFIGS s) organization_id of
        None \<Rightarrow>
          \<lparr>cfg_llm_provider = Some (DEFAULT_LLM_PROVIDER s),
           cfg_vector_db = Some (DEFAULT_VECTOR_DB s),
           cfg_shared_vector_db = Some (SHARED_VECTOR_DB s),
           cfg_openai_model = Some (OPENAI_DEFAULT_MODEL s),
           cfg_openai_embedding_model = None,
           cfg_openai_api_key = None,
           cfg_ollama_model = Some (OLLAMA_DEFAULT_MODEL s),
           cfg_ollama_api_base = None\<rparr>
      | Some config \<Rightarrow> config)"

definition get_llm_provider_for_company :: "settings \<Rightarrow> string \<Rightarrow> string" where
  "get_llm_provider_for_company s organization_id =
     (let company_config = get_company_config s organization_id
      in case cfg_llm_provider company_config of
           None \<Rightarrow> DEFAULT_LLM_PROVIDER s | Some name \<Rightarrow> name)"

section \<open>Provider registries (services/llm_providers, services/vector_databases)\<close>

text \<open>
  Each registry module owns two dictionaries, the registry of provider classes and the
  cache of instances, and writes to the logger. Python compares the cached objects by
  identity: every constructed instance is stored with the number of its allocation.
  A provider class is its constructor, which returns the new object or raises.
\<close>

record ('c, 'i) registry =
  REGISTRY :: "(string \<times> 'c) list"
  INSTANCES :: "(string \<times> nat \<times> 'i) list"
  next_object_id :: nat
  log_records :: "(log_level \<times> string) list"

definition register_provider :: "string \<Rightarrow> 'c \<Rightarrow> ('c, 'i) registry \<Rightarrow> ('c, 'i) registry" where
  "register_provider name provider_class st =
     st\<lparr>REGISTRY := AList.update name provider_class (REGISTRY st),
        log_records := log_records st @ [(INFO, ''Registered LLM provider: '' @ name)]\<rparr>"

text \<open>
  The body shared by \<open>get_llm_provider\<close> (lines 54 to 84) and \<open>get_vector_db\<close>
  (lines 61 to 89): cache lookup, fallback to the default name with an error-level log
  record, class lookup (a missing key raises \<open>KeyError\<close>), construction, caching.
\<close>

definition resolve_instance ::
  "string \<Rightarrow> string \<Rightarrow> string \<Rightarrow> string \<Rightarrow> string \<Rightarrow> ('c \<Rightarrow> py_error + 'i) \<Rightarrow> ('c, 'i) registry
     \<Rightarrow> (py_error + nat \<times> 'i) \<times> ('c, 'i) registry" where
  "resolve_instance cache_key provider_name default_name not_found_msg created_msg build st =
     (case map_of (INSTANCES st) cache_key of
        Some cached \<Rightarrow> (Inr cached, st)
      | None \<Rightarrow>
          let registered = (provider_name \<in> set (map fst (REGISTRY st)));
              st1 = (if registered then st
                     else st\<lparr>log_records := log_records st
                                              @ [(ERROR, not_found_msg @ provider_name)]\<rparr>);
              provider_name = (if registered then provider_name else default_name)
          in case map_of (REGISTRY st1) provider_name of
               None \<Rightarrow> (Inl (KeyError provider_name), st1)
             | Some provider_class \<Rightarrow>
                 (case build provider_class of
                    Inl e \<Rightarrow> (Inl e, st1)
                  | Inr obj \<Rightarrow>
                      let provider_instance = (next_object_id st1, obj)
                      in (Inr provider_instance,
                          st1\<lparr>INSTANCES := AList.update cache_key provider_instance (INSTANCES st1),
                              next_object_id := Suc (next_object_id st1),
                              log_records := log_records st1 @ [(INFO, created_msg)]\<rparr>)))"

type_synonym 'i llm_class = "string \<Rightarrow> company_config \<Rightarrow> py_error + 'i"
type_synonym 'i vector_db_class = "string \<Rightarrow> company_config \<Rightarrow> bool \<Rightarrow> py_error + 'i"

definition get_llm_provider ::
  "settings \<Rightarrow> string \<Rightarrow> ('i llm_class, 'i) registry
     \<Rightarrow> (py_error + nat \<times> 'i) \<times> ('i llm_class, 'i) registry" where
  "get_llm_provider s organization_id st =
     (let provider_name = get_llm_provider_for_company s organization_id;
          cache_key = organization_id @ '':'' @ provider_name
      in resolve_instance cache_key provider_name (DEFAULT_LLM_PROVIDER s)
           ''LLM provider not found: '' ''Created LLM provider instance''
           (\<lambda>provider_class. provider_class organization_id (get_company_config s organization_id))
           st)"

definition clear_provider_cache :: "('c, 'i) registry \<Rightarrow> ('c, 'i) registry" where
  "clear_provider_cache st =
     st\<lparr>INSTANCES := [], log_records := log_records st @ [(INFO, ''Cleared LLM provider cache'')]\<rparr>"

definition get_vector_db ::
  "settings \<Rightarrow> string \<Rightarrow> ('i vector_db_class, 'i) registry
     \<Rightarrow> (py_error + nat \<times> 'i) \<times> ('i vector_db_class, 'i) registry" where
  "get_vector_db s organization_id st =
     (let company_config = get_company_config s organization_id;
          vector_db_name = (case cfg_vector_db company_config of
                              None \<Rightarrow> DEFAULT_VECTOR_DB s | Some name \<Rightarrow> name);
          shared_vector_db = (case cfg_shared_vector_db company_config of
                                None \<Rightarrow> SHARED_VECTOR_DB s | Some b \<Rightarrow> b);
          cache_key = (if shared_vector_db then ''shared:'' @ vector_db_name
                       else organization_id @ '':'' @ vector_db_name)
      in resolve_instance cache_key vector_db_name (DEFAULT_VECTOR_DB s)
           ''Vector database not found: '' ''Created vector database instance''
           (\<lambda>vector_db_class. vector_db_class organization_id company_config shared_vector_db)
           st)"

definition clear_vector_db_cache :: "('c, 'i) registry \<Rightarrow> ('c, 'i) registry" where
  "clear_vector_db_cache st =
     st\<lparr>INSTANCES := [], log_records := log_records st @ [(INFO, ''Cleared vector database cache'')]\<rparr>"

text \<open>Every cached object was allocated before the next allocation number.\<close>

definition ids_allocated :: "('c, 'i) registry \<Rightarrow> bool" where
  "ids_allocated st = list_all (\<lambda>(k, i, obj). i < next_object_id st) (INSTANCES st)"

text \<open>Resolutions for a list of organizations, one after the other.\<close>

definition llm_calls ::
  "settings \<Rightarrow> string list \<Rightarrow> ('i llm_class, 'i) registry \<Rightarrow> ('i llm_class, 'i) registry" where
  "llm_calls s orgs st = fold (\<lambda>org st'. snd (get_llm_provider s org st')) orgs st"

definition vector_db_calls ::
  "settings \<Rightarrow> string list \<Rightarrow> ('i vector_db_class, 'i) registry \<Rightarrow> ('i vector_db_class, 'i) registry" where
  "vector_db_calls s orgs st = fold (\<lambda>org st'. snd (get_vector_db s org st')) orgs st"

subsection \<open>The shared body\<close>

lemma resolve_hit:
  "map_of (INSTANCES st) k = Some inst \<Longrightarrow>
   resolve_instance k n d m1 m2 c st = (Inr inst, st)"
  by (simp add: resolve_instance_def)

lemma resolve_caches:
  "resolve_instance k n d m1 m2 c st = (Inr inst, st') \<Longrightarrow> map_of (INSTANCES st') k = Some inst"
  by (auto simp: resolve_instance_def Let_def update_conv'
      split: option.splits sum.splits if_splits)

lemma resolve_keeps:
  "resolve_instance k' n d m1 m2 c st = (r, st') \<Longrightarrow> map_of (INSTANCES st) k = Some inst
     \<Longrightarrow> map_of (INSTANCES st') k = Some inst"
  by (auto simp: resolve_instance_def Let_def update_conv'
      split: option.splits sum.splits if_splits)

lemma resolve_miss_fresh:
  "map_of (INSTANCES st) k = None \<Longrightarrow> resolve_instance k n d m1 m2 c st = (Inr inst, st')
     \<Longrightarrow> fst inst = next_object_id st
         \<and> (\<exists>name cls. map_of (REGISTRY st) name = Some cls \<and> c cls = Inr (snd inst))"
  by (auto simp: resolve_instance_def Let_def split: option.splits sum.splits if_splits) blast+

lemma resolve_next_id_mono:
  "resolve_instance k n d m1 m2 c st = (r, st') \<Longrightarrow> next_object_id st \<le> next_object_id st'"
  by (auto simp: resolve_instance_def Let_def split: option.splits sum.splits if_splits)

lemma ids_allocated_lookup:
  "ids_allocated st \<Longrightarrow> map_of (INSTANCES st) k = Some inst \<Longrightarrow> fst inst < next_object_id st"
  by (auto simp: ids_allocated_def list_all_iff dest!: map_of_SomeD)

lemma set_update_cases:
  "x \<in> set (AList.update k v al) \<Longrightarrow> x = (k, v) \<or> x \<in> set al"
  by (induction al) (auto split: if_splits)

lemma list_all_update_allocated:
  "list_all (\<lambda>(k, i, obj). i < m) al
     \<Longrightarrow> list_all (\<lambda>(k, i, obj). i < Suc m) (AList.update k' (m, obj') al)"
  by (auto simp: list_all_iff less_Suc_eq dest!: set_update_cases)

lemma resolve_ids_allocated:
  assumes "resolve_instance k n d m1 m2 c st = (r, st')" and "ids_allocated st"
  shows "ids_allocated st'"
  using assms
  by (auto simp: resolve_instance_def Let_def ids_allocated_def
      split: option.splits sum.splits if_splits intro!: list_all_update_allocated)

subsection \<open>Provider classes and the settings of config.py\<close>

text \<open>
  The constructors of \<open>OpenAIProvider\<close>, \<open>OllamaProvider\<close> and
  \<open>ChromaDBProvider\<close> as far as they decide whether an instance is built and what it
  remembers. The Chroma server is taken to be reachable.
\<close>

datatype llm_instance =
    OpenAI string string string
  | Ollama string string string

definition OpenAIProvider :: "settings \<Rightarrow> llm_instance llm_class" where
  "OpenAIProvider s organization_id company_config =
     (let model = or_else (cfg_openai_model company_config) (OPENAI_DEFAULT_MODEL s);
          embedding_model = or_else (cfg_openai_embedding_model company_config)
                              (OPENAI_EMBEDDING_MODEL s);
          api_key = (case cfg_openai_api_key company_config of
                       None \<Rightarrow> OPENAI_API_KEY s | Some k \<Rightarrow> Some k)
      in if api_key = None \<or> api_key = Some []
         then Inl (ValueError ''OpenAI API key not configured'')
         else Inr (OpenAI organization_id model embedding_model))"

definition OllamaProvider :: "settings \<Rightarrow> llm_instance llm_class" where
  "OllamaProvider s organization_id company_config =
     Inr (Ollama organization_id
            (or_else (cfg_ollama_model company_config) (OLLAMA_DEFAULT_MODEL s))
            (or_else (cfg_ollama_api_base company_config) (OLLAMA_API_BASE s)))"

record chroma_provider =
  chroma_organization_id :: string
  chroma_shared :: bool
  chroma_collection_name :: string

definition ChromaDBProvider :: "settings \<Rightarrow> chroma_provider vector_db_class" where
  "ChromaDBProvider s organization_id company_config shared =
     Inr \<lparr>chroma_organization_id = organization_id,
          chroma_shared = shared,
          chroma_collection_name =
            (if shared then CHROMA_COLLECTION_NAME s
             else CHROMA_COLLECTION_NAME s @ ''_'' @ organization_id)\<rparr>"

definition default_settings :: settings where
  "default_settings =
     \<lparr>DEFAULT_LLM_PROVIDER = ''openai'',
      DEFAULT_VECTOR_DB = ''chroma'',
      SHARED_VECTOR_DB = True,
      OPENAI_API_KEY = None,
      OPENAI_EMBEDDING_MODEL = ''text-embedding-3-small'',
      OPENAI_DEFAULT_MODEL = ''gpt-3.5-turbo'',
      OLLAMA_API_BASE = ''http://localhost:11434/api'',
      OLLAMA_DEFAULT_MODEL = ''llama3'',
      CHROMA_COLLECTION_NAME = ''hello_pulse'',
      COMPANY_CONFIGS = []\<rparr>"

definition empty_config :: company_config where
  "empty_config =
     \<lparr>cfg_llm_provider = None, cfg_vector_db = None, cfg_shared_vector_db = None,
      cfg_openai_model = None, cfg_openai_embedding_model = None, cfg_openai_api_key = None,
      cfg_ollama_model = None, cfg_ollama_api_base = None\<rparr>"

definition llm_registry :: "settings \<Rightarrow> (llm_instance llm_class, llm_instance) registry" where
  "llm_registry s =
     \<lparr>REGISTRY = [(''openai'', OpenAIProvider s), (''ollama'', OllamaProvider s)],
      INSTANCES = [], next_object_id = 0, log_records = []\<rparr>"

definition chroma_registry ::
  "settings \<Rightarrow> (chroma_provider vector_db_class, chroma_provider) registry" where
  "chroma_registry s =
     \<lparr>REGISTRY = [(''chroma'', ChromaDBProvider s)],
      INSTANCES = [], next_object_id = 0, log_records = []\<rparr>"

subsection \<open>Repeated resolution\<close>

lemma resolve_again:
  assumes "resolve_instance k n d m1 m2 c st = (Inr inst, st1)"
  shows "resolve_instance k n d m1 m2 c st1 = (Inr inst, st1)"
  using resolve_hit [OF resolve_caches [OF assms]] .

lemma resolve_after_clear:
  assumes "ids_allocated st" and "resolve_instance k n d m1 m2 c st = (Inr inst, st1)"
    and "resolve_instance k n d m1 m2 c (st1\<lparr>INSTANCES := [], log_records := l\<rparr>) = (Inr inst2, st2)"
  shows "fst inst2 = next_object_id st1 \<and> fst inst2 \<noteq> fst inst
         \<and> (\<exists>name cls. map_of (REGISTRY st1) name = Some cls \<and> c cls = Inr (snd inst2))"
proof -
  have "ids_allocated st1" using assms(2,1) by (rule resolve_ids_allocated)
  from ids_allocated_lookup [OF this resolve_caches [OF assms(2)]]
  have lt: "fst inst < next_object_id st1" .
  have "map_of (INSTANCES (st1\<lparr>INSTANCES := [], log_records := l\<rparr>)) k = None" by simp
  from resolve_miss_fresh [OF this assms(3)] lt show ?thesis by auto
qed

lemma llm_calls_keep:
  "map_of (INSTANCES st) k = Some inst \<Longrightarrow> map_of (INSTANCES (llm_calls s orgs st)) k = Some inst"
proof (induction orgs arbitrary: st)
  case Nil
  then show ?case by (simp add: llm_calls_def)
next
  case (Cons org orgs)
  have "map_of (INSTANCES (snd (get_llm_provider s org st))) k = Some inst"
    unfolding get_llm_provider_def Let_def
    by (rule resolve_keeps [OF prod.collapse [symmetric] Cons.prems])
  from Cons.IH [OF this] show ?case by (simp add: llm_calls_def)
qed

lemma vector_db_calls_keep:
  "map_of (INSTANCES st) k = Some inst
     \<Longrightarrow> map_of (INSTANCES (vector_db_calls s orgs st)) k = Some inst"
proof (induction orgs arbitrary: st)
  case Nil
  then show ?case by (simp add: vector_db_calls_def)
next
  case (Cons org orgs)
  have "map_of (INSTANCES (snd (get_vector_db s org st))) k = Some inst"
    unfolding get_vector_db_def Let_def
    by (rule resolve_keeps [OF prod.collapse [symmetric] Cons.prems])
  from Cons.IH [OF this] show ?case by (simp add: vector_db_calls_def)
qed

lemma get_llm_provider_cached:
  assumes "ids_allocated st" and "get_llm_provider s org st = (Inr inst, st1)"
  shows "get_llm_provider s org st1 = (Inr inst, st1)
         \<and> (\<forall>orgs. fst (get_llm_provider s org (llm_calls s orgs st1)) = Inr inst)
         \<and> (\<forall>inst2 st2.
               get_llm_provider s org (clear_provider_cache st1) = (Inr inst2, st2)
               \<longrightarrow> fst inst2 = next_object_id st1 \<and> fst inst2 \<noteq> fst inst
                   \<and> (\<exists>name cls. map_of (REGISTRY st1) name = Some cls
                         \<and> cls org (get_company_config s org) = Inr (snd inst2)))"
proof -
  let ?k = "org @ '':'' @ get_llm_provider_for_company s org"
  from assms(2) have r: "resolve_instance ?k (get_llm_provider_for_company s org)
      (DEFAULT_LLM_PROVIDER s) ''LLM provider not found: '' ''Created LLM provider instance''
      (\<lambda>provider_class. provider_class org (get_company_config s org)) st = (Inr inst, st1)"
    by (simp add: get_llm_provider_def Let_def)
  have cached: "map_of (INSTANCES st1) ?k = Some inst" using r by (rule resolve_caches)
  have a: "get_llm_provider s org st1 = (Inr inst, st1)"
    using resolve_again [OF r] by (simp add: get_llm_provider_def Let_def)
  have b: "fst (get_llm_provider s org (llm_calls s orgs st1)) = Inr inst" for orgs
    using resolve_hit [OF llm_calls_keep [OF cached, of s orgs]]
    by (simp add: get_llm_provider_def Let_def)
  have c: "fst inst2 = next_object_id st1 \<and> fst inst2 \<noteq> fst inst
           \<and> (\<exists>name cls. map_of (REGISTRY st1) name = Some cls
                 \<and> cls org (get_company_config s org) = Inr (snd inst2))"
    if h: "get_llm_provider s org (clear_provider_cache st1) = (Inr inst2, st2)" for inst2 st2
  proof -
    from h have "resolve_instance ?k (get_llm_provider_for_company s org)
        (DEFAULT_LLM_PROVIDER s) ''LLM provider not found: '' ''Created LLM provider instance''
        (\<lambda>provider_class. provider_class org (get_company_config s org))
        (st1\<lparr>INSTANCES := [],
             log_records := log_records st1 @ [(INFO, ''Cleared LLM provider cache'')]\<rparr>)
        = (Inr inst2, st2)"
      by (simp add: get_llm_provider_def Let_def clear_provider_cache_def)
    from resolve_after_clear [OF assms(1) r this] show ?thesis .
  qed
  from a b c show ?thesis by blast
qed

lemma get_vector_db_cached:
  assumes "ids_allocated st" and "get_vector_db s org st = (Inr inst, st1)"
  shows "get_vector_db s org st1 = (Inr inst, st1)
         \<and> (\<forall>orgs. fst (get_vector_db s org (vector_db_calls s orgs st1)) = Inr inst)
         \<and> (\<forall>inst2 st2.
               get_vector_db s org (clear_vector_db_cache st1) = (Inr inst2, st2)
               \<longrightarrow> fst inst2 = next_object_id st1 \<and> fst inst2 \<noteq> fst inst
                   \<and> (\<exists>name cls shared. map_of (REGISTRY st1) name = Some cls
                         \<and> cls org (get_company_config s org) shared = Inr (snd inst2)))"
proof -
  let ?cfg = "get_company_config s org"
  let ?n = "case cfg_vector_db ?cfg of None \<Rightarrow> DEFAULT_VECTOR_DB s | Some name \<Rightarrow> name"
  let ?sh = "case cfg_shared_vector_db ?cfg of None \<Rightarrow> SHARED_VECTOR_DB s | Some b \<Rightarrow> b"
  let ?k = "if ?sh then ''shared:'' @ ?n else org @ '':'' @ ?n"
  from assms(2) have r: "resolve_instance ?k ?n
      (DEFAULT_VECTOR_DB s) ''Vector database not found: '' ''Created vector database instance''
      (\<lambda>vector_db_class. vector_db_class org ?cfg ?sh) st = (Inr inst, st1)"
    by (simp add: get_vector_db_def Let_def)
  have cached: "map_of (INSTANCES st1) ?k = Some inst" using r by (rule resolve_caches)
  have a: "get_vector_db s org st1 = (Inr inst, st1)"
    using resolve_again [OF r] by (simp add: get_vector_db_def Let_def)
  have b: "fst (get_vector_db s org (vector_db_calls s orgs st1)) = Inr inst" for orgs
    using resolve_hit [OF vector_db_calls_keep [OF cached, of s orgs]]
    by (simp add: get_vector_db_def Let_def)
  have c: "fst inst2 = next_object_id st1 \<and> fst inst2 \<noteq> fst inst
           \<and> (\<exists>name cls shared. map_of (REGISTRY st1) name = Some cls
                 \<and> cls org ?cfg shared = Inr (snd inst2))"
    if h: "get_vector_db s org (clear_vector_db_cache st1) = (Inr inst2, st2)" for inst2 st2
  proof -
    from h have "resolve_instance ?k ?n
        (DEFAULT_VECTOR_DB s) ''Vector database not found: '' ''Created vector database instance''
        (\<lambda>vector_db_class. vector_db_class org ?cfg ?sh)
        (st1\<lparr>INSTANCES := [],
             log_records := log_records st1 @ [(INFO, ''Cleared vector database cache'')]\<rparr>)
        = (Inr inst2, st2)"
      by (simp add: get_vector_db_def Let_def clear_vector_db_cache_def)
    from resolve_after_clear [OF assms(1) r this] show ?thesis by blast
  qed
  from a b c show ?thesis by blast
qed

definition keyed_settings :: settings where
  "keyed_settings = default_settings\<lparr>OPENAI_API_KEY := Some ''sk-test''\<rparr>"

text \<open>
  C6. Once a resolution for an organization has returned an instance, resolving again
  for that organization under the same settings returns the same object (the same
  allocation number and contents) and changes nothing; this stays so after any number of
  resolutions for any organizations; after the cache is cleared, a resolution that
  returns an instance returns a newly allocated object, different from the cached one,
  built by a registered class. Stated for \<open>get_llm_provider\<close> with
  \<open>clear_provider_cache\<close> and for \<open>get_vector_db\<close> with \<open>clear_vector_db_cache\<close>.
\<close>

theorem resolve_returns_cached_instance:
  assumes "ids_allocated lst" and "ids_allocated vst"
  shows "(\<forall>inst lst1. get_llm_provider s org lst = (Inr inst, lst1) \<longrightarrow>
              get_llm_provider s org lst1 = (Inr inst, lst1)
              \<and> (\<forall>orgs. fst (get_llm_provider s org (llm_calls s orgs lst1)) = Inr inst)
              \<and> (\<forall>inst2 lst2.
                    get_llm_provider s org (clear_provider_cache lst1) = (Inr inst2, lst2)
                    \<longrightarrow> fst inst2 = next_object_id lst1 \<and> fst inst2 \<noteq> fst inst
                        \<and> (\<exists>name cls. map_of (REGISTRY lst1) name = Some cls
                              \<and> cls org (get_company_config s org) = Inr (snd inst2))))
       \<and> (\<forall>inst vst1. get_vector_db s org vst = (Inr inst, vst1) \<longrightarrow>
              get_vector_db s org vst1 = (Inr inst, vst1)
              \<and> (\<forall>orgs. fst (get_vector_db s org (vector_db_calls s orgs vst1)) = Inr inst)
              \<and> (\<forall>inst2 vst2.
                    get_vector_db s org (clear_vector_db_cache vst1) = (Inr inst2, vst2)
                    \<longrightarrow> fst inst2 = next_object_id vst1 \<and> fst inst2 \<noteq> fst inst
                        \<and> (\<exists>name cls shared. map_of (REGISTRY vst1) name = Some cls
                              \<and> cls org (get_company_config s org) shared = Inr (snd inst2))))"
proof (rule conjI)
  show "\<forall>inst lst1. get_llm_provider s org lst = (Inr inst, lst1) \<longrightarrow>
              get_llm_provider s org lst1 = (Inr inst, lst1)
              \<and> (\<forall>orgs. fst (get_llm_provider s org (llm_calls s orgs lst1)) = Inr inst)
              \<and> (\<forall>inst2 lst2.
                    get_llm_provider s org (clear_provider_cache lst1) = (Inr inst2, lst2)
                    \<longrightarrow> fst inst2 = next_object_id lst1 \<and> fst inst2 \<noteq> fst inst
                        \<and> (\<exists>name cls. map_of (REGISTRY lst1) name = Some cls
                              \<and> cls org (get_company_config s org) = Inr (snd inst2)))"
    using get_llm_provider_cached [OF assms(1)] by (intro allI impI)
next
  show "\<forall>inst vst1. get_vector_db s org vst = (Inr inst, vst1) \<longrightarrow>
              get_vector_db s org vst1 = (Inr inst, vst1)
              \<and> (\<forall>orgs. fst (get_vector_db s org (vector_db_calls s orgs vst1)) = Inr inst)
              \<and> (\<forall>inst2 vst2.
                    get_vector_db s org (clear_vector_db_cache vst1) = (Inr inst2, vst2)
                    \<longrightarrow> fst inst2 = next_object_id vst1 \<and> fst inst2 \<noteq> fst inst
                        \<and> (\<exists>name cls shared. map_of (REGISTRY vst1) name = Some cls
                              \<and> cls org (get_company_config s org) shared = Inr (snd inst2)))"
    using get_vector_db_cached [OF assms(2)] by (intro allI impI)
qed

theorem resolve_returns_cached_instance_witness:
  "fst (get_llm_provider keyed_settings ''org1'' (llm_registry keyed_settings))
     = Inr (0, OpenAI ''org1'' ''gpt-3.5-turbo'' ''text-embedding-3-small'')
   \<and> fst (get_llm_provider keyed_settings ''org1''
            (snd (get_llm_provider keyed_settings ''org1'' (llm_registry keyed_settings))))
     = Inr (0, OpenAI ''org1'' ''gpt-3.5-turbo'' ''text-embedding-3-small'')
   \<and> fst (get_llm_provider keyed_settings ''org1''
            (clear_provider_cache
               (snd (get_llm_provider keyed_settings ''org1'' (llm_registry keyed_settings)))))
     = Inr (1, OpenAI ''org1'' ''gpt-3.5-turbo'' ''text-embedding-3-small'')
   \<and> fst (get_vector_db keyed_settings ''org1'' (chroma_registry keyed_settings))
     = Inr (0, \<lparr>chroma_organization_id = ''org1'', chroma_shared = True,
                chroma_collection_name = ''hello_pulse''\<rparr>)
   \<and> fst (get_vector_db keyed_settings ''org1''
            (snd (get_vector_db keyed_settings ''org1'' (chroma_registry keyed_settings))))
     = Inr (0, \<lparr>chroma_organization_id = ''org1'', chroma_shared = True,
                chroma_collection_name = ''hello_pulse''\<rparr>)"
proof -
  let ?S = keyed_settings
  let ?i = "(0::nat, OpenAI ''org1'' ''gpt-3.5-turbo'' ''text-embedding-3-small'')"
  let ?v = "(0::nat, \<lparr>chroma_organization_id = ''org1'', chroma_shared = True,
                      chroma_collection_name = ''hello_pulse''\<rparr>)"
  have a1: "ids_allocated (llm_registry ?S)" by (simp add: ids_allocated_def llm_registry_def)
  have a2: "ids_allocated (chroma_registry ?S)"
    by (simp add: ids_allocated_def chroma_registry_def)
  have l: "fst (get_llm_provider ?S ''org1'' (llm_registry ?S)) = Inr ?i"
    by (simp add: get_llm_provider_def get_llm_provider_for_company_def get_company_config_def
        keyed_settings_def default_settings_def llm_registry_def resolve_instance_def Let_def
        OpenAIProvider_def or_else_def)
  have v: "fst (get_vector_db ?S ''org1'' (chroma_registry ?S)) = Inr ?v"
    by (simp add: get_vector_db_def get_company_config_def
        keyed_settings_def default_settings_def chroma_registry_def resolve_instance_def Let_def
        ChromaDBProvider_def)
  from l have l': "get_llm_provider ?S ''org1'' (llm_registry ?S)
                     = (Inr ?i, snd (get_llm_provider ?S ''org1'' (llm_registry ?S)))"
    by (metis prod.collapse)
  from v have v': "get_vector_db ?S ''org1'' (chroma_registry ?S)
                     = (Inr ?v, snd (get_vector_db ?S ''org1'' (chroma_registry ?S)))"
    by (metis prod.collapse)
  note t = resolve_returns_cached_instance [OF a1 a2, of ?S "''org1''"]
  from t l' have l2: "get_llm_provider ?S ''org1''
                        (snd (get_llm_provider ?S ''org1'' (llm_registry ?S)))
                      = (Inr ?i, snd (get_llm_provider ?S ''org1'' (llm_registry ?S)))"
    by blast
  from t v' have v2: "get_vector_db ?S ''org1''
                        (snd (get_vector_db ?S ''org1'' (chroma_registry ?S)))
                      = (Inr ?v, snd (get_vector_db ?S ''org1'' (chroma_registry ?S)))"
    by blast
  have l3: "fst (get_llm_provider ?S ''org1''
                   (clear_provider_cache (snd (get_llm_provider ?S ''org1'' (llm_registry ?S)))))
            = Inr (1, OpenAI ''org1'' ''gpt-3.5-turbo'' ''text-embedding-3-small'')"
    by (simp add: get_llm_provider_def get_llm_provider_for_company_def get_company_config_def
        keyed_settings_def default_settings_def llm_registry_def resolve_instance_def Let_def
        OpenAIProvider_def or_else_def clear_provider_cache_def)
  from l l2 l3 v v2 show ?thesis by simp
qed

subsection \<open>Fallback to the default provider name\<close>

definition get_vector_db_for_company :: "settings \<Rightarrow> string \<Rightarrow> string" where
  "get_vector_db_for_company s organization_id =
     (let company_config = get_company_config s organization_id
      in case cfg_vector_db company_config of
           None \<Rightarrow> DEFAULT_VECTOR_DB s | Some name \<Rightarrow> name)"

definition shared_vector_db_for_company :: "settings \<Rightarrow> string \<Rightarrow> bool" where
  "shared_vector_db_for_company s organization_id =
     (case cfg_shared_vector_db (get_company_config s organization_id) of
        None \<Rightarrow> SHARED_VECTOR_DB s | Some b \<Rightarrow> b)"

definition vector_db_cache_key :: "settings \<Rightarrow> string \<Rightarrow> string" where
  "vector_db_cache_key s organization_id =
     (if shared_vector_db_for_company s organization_id
      then ''shared:'' @ get_vector_db_for_company s organization_id
      else organization_id @ '':'' @ get_vector_db_for_company s organization_id)"

lemma resolve_fallback:
  assumes "map_of (INSTANCES st) k = None" and "n \<notin> set (map fst (REGISTRY st))"
  shows "\<exists>r st' rest. resolve_instance k n d m1 m2 c st = (r, st')
           \<and> log_records st' = log_records st @ (ERROR, m1 @ n) # rest
           \<and> WARNING \<notin> fst ` set rest
           \<and> (case map_of (REGISTRY st) d of
                 None \<Rightarrow> r = Inl (KeyError d)
               | Some cls \<Rightarrow>
                   (case c cls of
                      Inl e \<Rightarrow> r = Inl e
                    | Inr obj \<Rightarrow> r = Inr (next_object_id st, obj)))"
  using assms
  by (auto simp: resolve_instance_def Let_def split: option.splits sum.splits)

text \<open>
  C7 (as amended). When the provider name configured for an organization is not
  registered (and no instance is cached under the organization's cache key), the
  resolution appends an \<open>ERROR\<close> record naming the missing provider to the log, logs no
  warning, and goes on with the default provider name: it raises \<open>KeyError\<close> when the
  default name is not registered either, raises what the default class's constructor
  raises, and otherwise returns a newly allocated instance built by the default class.
\<close>

theorem unregistered_provider_falls_back_to_default:
  "(get_llm_provider_for_company s org \<notin> set (map fst (REGISTRY lst))
      \<and> map_of (INSTANCES lst) (org @ '':'' @ get_llm_provider_for_company s org) = None
    \<longrightarrow> (\<exists>r lst' rest. get_llm_provider s org lst = (r, lst')
           \<and> log_records lst' = log_records lst
                @ (ERROR, ''LLM provider not found: '' @ get_llm_provider_for_company s org) # rest
           \<and> WARNING \<notin> fst ` set rest
           \<and> (case map_of (REGISTRY lst) (DEFAULT_LLM_PROVIDER s) of
                 None \<Rightarrow> r = Inl (KeyError (DEFAULT_LLM_PROVIDER s))
               | Some cls \<Rightarrow>
                   (case cls org (get_company_config s org) of
                      Inl e \<Rightarrow> r = Inl e
                    | Inr obj \<Rightarrow> r = Inr (next_object_id lst, obj)))))
   \<and> (get_vector_db_for_company s org \<notin> set (map fst (REGISTRY vst))
      \<and> map_of (INSTANCES vst) (vector_db_cache_key s org) = None
    \<longrightarrow> (\<exists>r vst' rest. get_vector_db s org vst = (r, vst')
           \<and> log_records vst' = log_records vst
                @ (ERROR, ''Vector database not found: '' @ get_vector_db_for_company s org) # rest
           \<and> WARNING \<notin> fst ` set rest
           \<and> (case map_of (REGISTRY vst) (DEFAULT_VECTOR_DB s) of
                 None \<Rightarrow> r = Inl (KeyError (DEFAULT_VECTOR_DB s))
               | Some cls \<Rightarrow>
                   (case cls org (get_company_config s org) (shared_vector_db_for_company s org) of
                      Inl e \<Rightarrow> r = Inl e
                    | Inr obj \<Rightarrow> r = Inr (next_object_id vst, obj)))))"
proof (rule conjI)
  show "get_llm_provider_for_company s org \<notin> set (map fst (REGISTRY lst))
      \<and> map_of (INSTANCES lst) (org @ '':'' @ get_llm_provider_for_company s org) = None
    \<longrightarrow> (\<exists>r lst' rest. get_llm_provider s org lst = (r, lst')
           \<and> log_records lst' = log_records lst
                @ (ERROR, ''LLM provider not found: '' @ get_llm_provider_for_company s org) # rest
           \<and> WARNING \<notin> fst ` set rest
           \<and> (case map_of (REGISTRY lst) (DEFAULT_LLM_PROVIDER s) of
                 None \<Rightarrow> r = Inl (KeyError (DEFAULT_LLM_PROVIDER s))
               | Some cls \<Rightarrow>
                   (case cls org (get_company_config s org) of
                      Inl e \<Rightarrow> r = Inl e
                    | Inr obj \<Rightarrow> r = Inr (next_object_id lst, obj))))"
  proof
    assume h: "get_llm_provider_for_company s org \<notin> set (map fst (REGISTRY lst))
      \<and> map_of (INSTANCES lst) (org @ '':'' @ get_llm_provider_for_company s org) = None"
    from resolve_fallback [of lst "org @ '':'' @ get_llm_provider_for_company s org"
        "get_llm_provider_for_company s org" "DEFAULT_LLM_PROVIDER s"
        "''LLM provider not found: ''" "''Created LLM provider instance''"
        "\<lambda>provider_class. provider_class org (get_company_config s org)"] h
    show "\<exists>r lst' rest. get_llm_provider s org lst = (r, lst')
           \<and> log_records lst' = log_records lst
                @ (ERROR, ''LLM provider not found: '' @ get_llm_provider_for_company s org) # rest
           \<and> WARNING \<notin> fst ` set rest
           \<and> (case map_of (REGISTRY lst) (DEFAULT_LLM_PROVIDER s) of
                 None \<Rightarrow> r = Inl (KeyError (DEFAULT_LLM_PROVIDER s))
               | Some cls \<Rightarrow>
                   (case cls org (get_company_config s org) of
                      Inl e \<Rightarrow> r = Inl e
                    | Inr obj \<Rightarrow> r = Inr (next_object_id lst, obj)))"
      by (simp add: get_llm_provider_def Let_def)
  qed
next
  show "get_vector_db_for_company s org \<notin> set (map fst (REGISTRY vst))
      \<and> map_of (INSTANCES vst) (vector_db_cache_key s org) = None
    \<longrightarrow> (\<exists>r vst' rest. get_vector_db s org vst = (r, vst')
           \<and> log_records vst' = log_records vst
                @ (ERROR, ''Vector database not found: '' @ get_vector_db_for_company s org) # rest
           \<and> WARNING \<notin> fst ` set rest
           \<and> (case map_of (REGISTRY vst) (DEFAULT_VECTOR_DB s) of
                 None \<Rightarrow> r = Inl (KeyError (DEFAULT_VECTOR_DB s))
               | Some cls \<Rightarrow>
                   (case cls org (get_company_config s org) (shared_vector_db_for_company s org) of
                      Inl e \<Rightarrow> r = Inl e
                    | Inr obj \<Rightarrow> r = Inr (next_object_id vst, obj))))"
  proof
    assume h: "get_vector_db_for_company s org \<notin> set (map fst (REGISTRY vst))
      \<and> map_of (INSTANCES vst) (vector_db_cache_key s org) = None"
    have g: "get_vector_db s org vst
               = resolve_instance (vector_db_cache_key s org) (get_vector_db_for_company s org)
                   (DEFAULT_VECTOR_DB s) ''Vector database not found: ''
                   ''Created vector database instance''
                   (\<lambda>cls. cls org (get_company_config s org) (shared_vector_db_for_company s org))
                   vst"
      by (simp add: get_vector_db_def Let_def vector_db_cache_key_def
          get_vector_db_for_company_def shared_vector_db_for_company_def)
    from resolve_fallback [of vst "vector_db_cache_key s org"
        "get_vector_db_for_company s org" "DEFAULT_VECTOR_DB s"
        "''Vector database not found: ''" "''Created vector database instance''"
        "\<lambda>cls. cls org (get_company_config s org) (shared_vector_db_for_company s org)"] h
    show "\<exists>r vst' rest. get_vector_db s org vst = (r, vst')
           \<and> log_records vst' = log_records vst
                @ (ERROR, ''Vector database not found: '' @ get_vector_db_for_company s org) # rest
           \<and> WARNING \<notin> fst ` set rest
           \<and> (case map_of (REGISTRY vst) (DEFAULT_VECTOR_DB s) of
                 None \<Rightarrow> r = Inl (KeyError (DEFAULT_VECTOR_DB s))
               | Some cls \<Rightarrow>
                   (case cls org (get_company_config s org) (shared_vector_db_for_company s org) of
                      Inl e \<Rightarrow> r = Inl e
                    | Inr obj \<Rightarrow> r = Inr (next_object_id vst, obj)))"
      by (simp add: g)
  qed
qed

text \<open>
  Settings in which organization \<open>org1\<close> is configured with the provider name
  \<open>anthropic\<close> and the vector database name \<open>pinecone\<close>, neither of them registered.
\<close>

definition unregistered_config :: company_config where
  "unregistered_config =
     empty_config\<lparr>cfg_llm_provider := Some ''anthropic'', cfg_vector_db := Some ''pinecone''\<rparr>"

definition keyed_unregistered_settings :: settings where
  "keyed_unregistered_settings =
     keyed_settings\<lparr>COMPANY_CONFIGS := [(''org1'', unregistered_config)]\<rparr>"

definition unregistered_settings :: settings where
  "unregistered_settings =
     default_settings\<lparr>COMPANY_CONFIGS := [(''org1'', unregistered_config)]\<rparr>"

lemmas registry_example_defs =
  get_llm_provider_def get_vector_db_def get_llm_provider_for_company_def
  get_vector_db_for_company_def shared_vector_db_for_company_def vector_db_cache_key_def
  get_company_config_def resolve_instance_def Let_def
  keyed_unregistered_settings_def unregistered_settings_def unregistered_config_def
  empty_config_def keyed_settings_def default_settings_def
  llm_registry_def chroma_registry_def
  OpenAIProvider_def OllamaProvider_def ChromaDBProvider_def or_else_def

theorem unregistered_provider_falls_back_to_default_witness:
  "fst (get_llm_provider keyed_unregistered_settings ''org1''
          (llm_registry keyed_unregistered_settings))
     = Inr (0, OpenAI ''org1'' ''gpt-3.5-turbo'' ''text-embedding-3-small'')
   \<and> log_records (snd (get_llm_provider keyed_unregistered_settings ''org1''
                          (llm_registry keyed_unregistered_settings)))
     = [(ERROR, ''LLM provider not found: anthropic''),
        (INFO, ''Created LLM provider instance'')]
   \<and> fst (get_vector_db keyed_unregistered_settings ''org1''
            (chroma_registry keyed_unregistered_settings))
     = Inr (0, \<lparr>chroma_organization_id = ''org1'', chroma_shared = True,
                chroma_collection_name = ''hello_pulse''\<rparr>)
   \<and> log_records (snd (get_vector_db keyed_unregistered_settings ''org1''
                          (chroma_registry keyed_unregistered_settings)))
     = [(ERROR, ''Vector database not found: pinecone''),
        (INFO, ''Created vector database instance'')]"
  using unregistered_provider_falls_back_to_default
          [of keyed_unregistered_settings "''org1''" "llm_registry keyed_unregistered_settings"
              "chroma_registry keyed_unregistered_settings"]
  by (simp add: registry_example_defs)

text \<open>
  C7 (as stated) fails: with the settings of \<open>config.py\<close> (default provider
  \<open>openai\<close>, no API key) and a tenant configured with an unregistered provider name,
  the resolution logs the fallback at error level and then raises.
\<close>

theorem unregistered_provider_raises_counterexample:
  "get_llm_provider unregistered_settings ''org1'' (llm_registry unregistered_settings)
     = (Inl (ValueError ''OpenAI API key not configured''),
        (llm_registry unregistered_settings)
          \<lparr>log_records := [(ERROR, ''LLM provider not found: anthropic'')]\<rparr>)"
  by (simp add: registry_example_defs)


section \<open>services/vector_databases/chroma.py\<close>

text \<open>
  A stored document has an id, a text, a metadata dictionary and an embedding. The agent
  manager stores \<open>json.dumps(agent_metadata)\<close> as the text of an agent document and
  reads it back with \<open>json.loads\<close>: a text written by \<open>json.dumps\<close> is kept as the
  value it encodes (\<open>Json v\<close>), and \<open>json.loads\<close> raises on any other text.
\<close>

datatype doc_text = Text string | Json json

definition json_dumps :: "json \<Rightarrow> doc_text" where
  "json_dumps v = Json v"

definition json_loads :: "doc_text \<Rightarrow> py_error + json" where
  "json_loads t = (case t of Json v \<Rightarrow> Inr v | Text s \<Rightarrow> Inl JSONDecodeError)"

record stored_document =
  sd_id :: string
  sd_text :: doc_text
  sd_metadata :: pydict
  sd_embedding :: "real list"

type_synonym collection = "stored_document list"

text \<open>
  The collection of the Chroma client, as the provider uses it. \<open>get(ids=...)\<close>
  returns the records that exist, in the order of the requested ids; an id that is not
  stored contributes nothing (this is what \<open>if not results["ids"]\<close> in
  \<open>get_document\<close> and \<open>update_document\<close> relies on). \<open>get(where=..., limit=...)\<close>
  returns the first records that match. \<open>update\<close> replaces the fields it is given
  on the record with that id and \<open>delete\<close> removes the records with the given ids;
  both ignore an id that is not stored. Ids are unique in a collection.
\<close>

definition collection_get_ids :: "string list \<Rightarrow> collection \<Rightarrow> collection" where
  "collection_get_ids ids coll = List.map_filter (\<lambda>i. find (\<lambda>d. sd_id d = i) coll) ids"

definition collection_get_where :: "pydict \<Rightarrow> collection \<Rightarrow> collection" where
  "collection_get_where w coll = filter (\<lambda>d. where_matches (JDict w) (sd_metadata d)) coll"

definition collection_delete :: "string list \<Rightarrow> collection \<Rightarrow> collection" where
  "collection_delete ids coll = filter (\<lambda>d. sd_id d \<notin> set ids) coll"

definition collection_update ::
  "string \<Rightarrow> doc_text option \<Rightarrow> real list option \<Rightarrow> pydict option \<Rightarrow> collection \<Rightarrow> collection" where
  "collection_update i text embedding metadata coll =
     map (\<lambda>d. if sd_id d = i
              then d\<lparr>sd_text := or_else text (sd_text d),
                     sd_embedding := or_else embedding (sd_embedding d),
                     sd_metadata := or_else metadata (sd_metadata d)\<rparr>
              else d) coll"

text \<open>
  \<open>delete_documents\<close>, lines 172 to 176: the loop over \<open>enumerate(results["metadatas"])\<close>
  that appends \<open>document_ids[i]\<close>. An index out of range raises \<open>IndexError\<close>
  inside the method's \<open>try\<close>.
\<close>

fun owned_ids :: "string \<Rightarrow> string list \<Rightarrow> (nat \<times> pydict) list \<Rightarrow> string list \<Rightarrow> py_error + string list" where
  "owned_ids organization_id document_ids [] filtered_ids = Inr filtered_ids"
| "owned_ids organization_id document_ids ((i, metadata) # rest) filtered_ids =
     (if dict_get metadata ''organization_id'' = Some (JStr organization_id)
      then (if i < length document_ids
            then owned_ids organization_id document_ids rest (filtered_ids @ [document_ids ! i])
            else Inl IndexError)
      else owned_ids organization_id document_ids rest filtered_ids)"

text \<open>
  Every method body is a \<open>try\<close> block whose handler logs at \<open>ERROR\<close> and returns the
  failure value (\<open>log_and_return\<close>). A refusal inside the block is
  \<open>logger.warning(..., extra=...)\<close> followed by \<open>return\<close>: when creating the warning
  record raises, the handler runs.
\<close>

definition refused :: "log_level \<Rightarrow> string list \<Rightarrow> string list \<Rightarrow> string list \<Rightarrow> 'a \<Rightarrow> py_error + 'a" where
  "refused lvl ctx warning_extra handler_extra v =
     (case log_call lvl ctx WARNING warning_extra of
        Inl e \<Rightarrow> log_and_return lvl ctx handler_extra v
      | Inr u \<Rightarrow> Inr v)"

definition delete_documents ::
  "log_level \<Rightarrow> string list \<Rightarrow> chroma_provider \<Rightarrow> string list \<Rightarrow> collection
     \<Rightarrow> (py_error + bool) \<times> collection" where
  "delete_documents lvl ctx self document_ids coll =
     (if chroma_shared self then
        (let results = collection_get_ids document_ids coll
         in case owned_ids (chroma_organization_id self) document_ids
                   (enumerate 0 (map sd_metadata results)) [] of
              Inl e \<Rightarrow>
                (log_and_return lvl ctx [''collection'', ''organization_id'', ''document_count'']
                   False, coll)
            | Inr filtered_ids \<Rightarrow>
                if filtered_ids = [] then (Inr True, coll)
                else (Inr True, collection_delete filtered_ids coll))
      else (Inr True, collection_delete document_ids coll))"

definition update_document ::
  "log_level \<Rightarrow> string list \<Rightarrow> chroma_provider \<Rightarrow> string \<Rightarrow> doc_text option \<Rightarrow> real list option
     \<Rightarrow> pydict option \<Rightarrow> collection \<Rightarrow> (py_error + bool) \<times> collection" where
  "update_document lvl ctx self document_id text embedding metadata coll =
     (case collection_get_ids [document_id] coll of
        [] \<Rightarrow>
          (refused lvl ctx [''collection'', ''document_id'', ''organization_id'']
             [''collection'', ''document_id'', ''organization_id''] False, coll)
      | current # others \<Rightarrow>
          if chroma_shared self
             \<and> dict_get (sd_metadata current) ''organization_id''
                 \<noteq> Some (JStr (chroma_organization_id self))
          then (refused lvl ctx
                  [''collection'', ''document_id'', ''organization_id'', ''owner_org_id'']
                  [''collection'', ''document_id'', ''organization_id''] False, coll)
          else
            let metadata' =
                  (case metadata of
                     None \<Rightarrow> None
                   | Some m \<Rightarrow>
                       Some (if chroma_shared self \<and> \<not> dict_has m ''organization_id''
                             then dict_set ''organization_id'' (JStr (chroma_organization_id self)) m
                             else m))
            in if text = None \<and> embedding = None \<and> metadata = None then (Inr True, coll)
               else (Inr True, collection_update document_id text embedding metadata' coll))"

definition get_document ::
  "log_level \<Rightarrow> string list \<Rightarrow> chroma_provider \<Rightarrow> string \<Rightarrow> collection
     \<Rightarrow> py_error + stored_document option" where
  "get_document lvl ctx self document_id coll =
     (case collection_get_ids [document_id] coll of
        [] \<Rightarrow> Inr None
      | found # others \<Rightarrow>
          if chroma_shared self
             \<and> dict_get (sd_metadata found) ''organization_id''
                 \<noteq> Some (JStr (chroma_organization_id self))
          then refused lvl ctx
                 [''collection'', ''document_id'', ''organization_id'', ''owner_org_id'']
                 [''collection'', ''document_id'', ''organization_id''] None
          else Inr (Some found))"

text \<open>
  \<open>list_documents\<close> and \<open>count_documents\<close>: the organization of the instance is
  added only when the filter has no \<open>organization_id\<close>; the filter is then copied
  entry by entry into \<open>where\<close>. Nothing in the two bodies raises on the stores of the
  model, so their handlers and log calls are never reached.
\<close>

definition scoped_where :: "chroma_provider \<Rightarrow> pydict \<Rightarrow> pydict" where
  "scoped_where self filter_dict =
     (let filter_dict' =
            (if chroma_shared self \<and> \<not> dict_has filter_dict ''organization_id''
             then dict_set ''organization_id'' (JStr (chroma_organization_id self)) filter_dict
             else filter_dict)
      in dict_update_all filter_dict' [])"

definition list_documents :: "chroma_provider \<Rightarrow> pydict \<Rightarrow> nat \<Rightarrow> nat \<Rightarrow> collection \<Rightarrow> collection" where
  "list_documents self filter_dict limit offset coll =
     (let safe_limit = limit + offset;
          results = take safe_limit (collection_get_where (scoped_where self filter_dict) coll)
      in drop offset (take (min (length results) safe_limit) results))"

definition count_documents :: "chroma_provider \<Rightarrow> pydict \<Rightarrow> collection \<Rightarrow> nat" where
  "count_documents self filter_dict coll =
     length (collection_get_where (scoped_where self filter_dict) coll)"

subsection \<open>Cross-organization access by id\<close>

lemma collection_get_ids_single:
  "collection_get_ids [i] coll = (case find (\<lambda>d. sd_id d = i) coll of None \<Rightarrow> [] | Some d \<Rightarrow> [d])"
  by (simp add: collection_get_ids_def List.map_filter_def split: option.splits)

lemma refused_created:
  "log_call lvl ctx WARNING warning_extra = Inr () \<Longrightarrow>
   refused lvl ctx warning_extra handler_extra v = Inr v"
  by (simp add: refused_def)

text \<open>
  A refusal whose warning record names \<open>organization_id\<close> raises \<open>KeyError\<close> inside a
  logging context that has set \<open>organization_id\<close>, at every logger level up to
  \<open>WARNING\<close>: the handler's record names it too.
\<close>

lemma refused_in_context:
  assumes "''organization_id'' \<in> set warning_extra" and "''organization_id'' \<in> set handler_extra"
    and "''organization_id'' \<in> set ctx" and "level_rank lvl \<le> level_rank WARNING"
  shows "\<exists>key. refused lvl ctx warning_extra handler_extra v = Inl (overwrite_error key)"
proof -
  from assms(4) have le: "level_rank lvl \<le> level_rank ERROR" by simp
  from log_call_in_context [OF assms(1) assms(3) assms(4)]
  obtain k1 where w: "log_call lvl ctx WARNING warning_extra = Inl (overwrite_error k1)"
    by blast
  from log_call_in_context [OF assms(2) assms(3) le]
  obtain k2 where e: "log_call lvl ctx ERROR handler_extra = Inl (overwrite_error k2)"
    by blast
  show ?thesis by (auto simp: refused_def log_and_return_def w e)
qed

lemma get_document_other_organization:
  assumes "chroma_shared self" and "find (\<lambda>d. sd_id d = i) coll = Some d"
    and "dict_get (sd_metadata d) ''organization_id'' \<noteq> Some (JStr (chroma_organization_id self))"
    and "log_call lvl ctx WARNING
           [''collection'', ''document_id'', ''organization_id'', ''owner_org_id''] = Inr ()"
  shows "get_document lvl ctx self i coll = Inr None"
  using assms by (simp add: get_document_def collection_get_ids_single refused_created)

lemma update_document_other_organization:
  assumes "chroma_shared self" and "find (\<lambda>d. sd_id d = i) coll = Some d"
    and "dict_get (sd_metadata d) ''organization_id'' \<noteq> Some (JStr (chroma_organization_id self))"
    and "log_call lvl ctx WARNING
           [''collection'', ''document_id'', ''organization_id'', ''owner_org_id''] = Inr ()"
  shows "update_document lvl ctx self i text embedding metadata coll = (Inr False, coll)"
  using assms by (simp add: update_document_def collection_get_ids_single refused_created)

lemma update_document_other_organization_in_context:
  assumes "chroma_shared self" and "find (\<lambda>d. sd_id d = i) coll = Some d"
    and "dict_get (sd_metadata d) ''organization_id'' \<noteq> Some (JStr (chroma_organization_id self))"
    and "org \<noteq> []" and "level_rank lvl \<le> level_rank WARNING"
  shows "\<exists>key. update_document lvl (logging_context org user ctx0) self i text embedding metadata
                  coll = (Inl (overwrite_error key), coll)"
proof -
  from refused_in_context
         [where warning_extra =
                  "[''collection'', ''document_id'', ''organization_id'', ''owner_org_id'']"
            and handler_extra = "[''collection'', ''document_id'', ''organization_id'']"
            and v = False and ctx = "logging_context org user ctx0",
          OF _ _ organization_in_context [OF assms(4)] assms(5)]
  obtain key where
    "refused lvl (logging_context org user ctx0)
       [''collection'', ''document_id'', ''organization_id'', ''owner_org_id'']
       [''collection'', ''document_id'', ''organization_id''] False = Inl (overwrite_error key)"
    by auto
  with assms(1-3) show ?thesis
    by (auto simp: update_document_def collection_get_ids_single)
qed

lemma delete_documents_single_other_organization:
  assumes "chroma_shared self" and "find (\<lambda>d. sd_id d = i) coll = Some d"
    and "dict_get (sd_metadata d) ''organization_id'' \<noteq> Some (JStr (chroma_organization_id self))"
  shows "delete_documents lvl ctx self [i] coll = (Inr True, coll)"
  using assms by (simp add: delete_documents_def collection_get_ids_single)

text \<open>
  A shared collection with a document \<open>f1\<close> of organization \<open>org2\<close> and a document
  \<open>m1\<close> of organization \<open>org1\<close>, and the provider instance of \<open>org1\<close>.
\<close>

definition org1_chroma :: chroma_provider where
  "org1_chroma = \<lparr>chroma_organization_id = ''org1'', chroma_shared = True,
                  chroma_collection_name = ''hello_pulse''\<rparr>"

definition foreign_doc :: stored_document where
  "foreign_doc = \<lparr>sd_id = ''f1'', sd_text = Text ''theirs'',
                  sd_metadata = [(''organization_id'', JStr ''org2''), (''user_id'', JStr ''bob''),
                                 (''visibility'', JStr ''private'')],
                  sd_embedding = [0]\<rparr>"

definition own_doc :: stored_document where
  "own_doc = \<lparr>sd_id = ''m1'', sd_text = Text ''ours'',
              sd_metadata = [(''organization_id'', JStr ''org1''), (''user_id'', JStr ''alice''),
                             (''visibility'', JStr ''private'')],
              sd_embedding = [0]\<rparr>"

text \<open>
  C2, the code at the failing input. The instance of \<open>org1\<close> is asked to delete an id
  that is not stored, the id of the document of \<open>org2\<close> and the id of its own document.
  The store returns the two records that exist; the ownership test passes for the second
  record (the own document), and \<open>document_ids[1]\<close>, the id of the other
  organization's document, is what gets deleted, at every logger level and in every
  logging context (the path creates no log record). \<open>get_document\<close> and
  \<open>update_document\<close>, called outside a logging context, refuse the same document.
\<close>

theorem chroma_delete_documents_cross_tenant:
  "delete_documents lvl ctx org1_chroma [''missing'', ''f1'', ''m1''] [foreign_doc, own_doc]
     = (Inr True, [own_doc])
   \<and> get_document lvl [] org1_chroma ''f1'' [foreign_doc, own_doc] = Inr None
   \<and> update_document lvl [] org1_chroma ''f1'' (Some (Text ''x'')) None None
       [foreign_doc, own_doc]
     = (Inr False, [foreign_doc, own_doc])"
proof -
  have w: "log_call lvl [] WARNING
             [''collection'', ''document_id'', ''organization_id'', ''owner_org_id''] = Inr ()"
    by (simp add: log_call_def RECORD_ATTRIBUTES_def)
  have d: "delete_documents lvl ctx org1_chroma [''missing'', ''f1'', ''m1'']
             [foreign_doc, own_doc] = (Inr True, [own_doc])"
    by (simp add: delete_documents_def collection_get_ids_def collection_delete_def
        List.map_filter_def org1_chroma_def foreign_doc_def own_doc_def dict_get_def)
  have g: "get_document lvl [] org1_chroma ''f1'' [foreign_doc, own_doc] = Inr None"
    by (simp add: get_document_def collection_get_ids_def List.map_filter_def org1_chroma_def
        foreign_doc_def own_doc_def dict_get_def refused_created [OF w])
  have u: "update_document lvl [] org1_chroma ''f1'' (Some (Text ''x'')) None None
             [foreign_doc, own_doc] = (Inr False, [foreign_doc, own_doc])"
    by (simp add: update_document_def collection_get_ids_def List.map_filter_def org1_chroma_def
        foreign_doc_def own_doc_def dict_get_def refused_created [OF w])
  from d g u show ?thesis by blast
qed

section \<open>services/agents/manager.py\<close>

text \<open>
  The state the agent manager works on: the vector database registry of the process, the
  collections of the Chroma server by name, and the manager's own \<open>_agent_cache\<close>.
  \<open>RAGAgent\<close> keeps what its constructor is given. Every public method runs inside
  \<open>with LoggingContext(organization_id=..., user_id=...)\<close>: \<open>ctx0\<close> is the context
  the method is called in and \<open>ctx\<close> the one its body runs in.
\<close>

record rag_agent =
  ra_agent_id :: string
  ra_agent_name :: json
  ra_agent_description :: json
  ra_agent_instructions :: json
  ra_organization_id :: string
  ra_user_id :: string
  ra_metadata :: json

record world =
  vector_dbs :: "(chroma_provider vector_db_class, chroma_provider) registry"
  chroma_server :: "(string \<times> collection) list"
  agent_cache :: "(string \<times> rag_agent) list"

definition stored :: "world \<Rightarrow> chroma_provider \<Rightarrow> collection" where
  "stored w vector_db = or_else (map_of (chroma_server w) (chroma_collection_name vector_db)) []"

definition store :: "chroma_provider \<Rightarrow> collection \<Rightarrow> world \<Rightarrow> world" where
  "store vector_db coll w =
     w\<lparr>chroma_server := AList.update (chroma_collection_name vector_db) coll (chroma_server w)\<rparr>"

definition vdb_update_document ::
  "log_level \<Rightarrow> string list \<Rightarrow> chroma_provider \<Rightarrow> string \<Rightarrow> doc_text option \<Rightarrow> pydict option \<Rightarrow> world
     \<Rightarrow> (py_error + bool) \<times> world" where
  "vdb_update_document lvl ctx vector_db document_id text metadata w =
     (let (ok, coll) = update_document lvl ctx vector_db document_id text None metadata
                         (stored w vector_db)
      in (ok, store vector_db coll w))"

definition vdb_delete_documents ::
  "log_level \<Rightarrow> string list \<Rightarrow> chroma_provider \<Rightarrow> string list \<Rightarrow> world \<Rightarrow> (py_error + bool) \<times> world" where
  "vdb_delete_documents lvl ctx vector_db document_ids w =
     (let (ok, coll) = delete_documents lvl ctx vector_db document_ids (stored w vector_db)
      in (ok, store vector_db coll w))"

text \<open>
  \<open>vector_db = get_vector_db(organization_id)\<close>, the first statement of every method,
  inside the method's logging context. A cached instance is returned as it is. Otherwise
  an instance is constructed: the constructor's record "Connected to ChromaDB collection"
  (chroma.py 54 to 61, level \<open>INFO\<close>, extra \<open>collection\<close>, \<open>organization_id\<close>,
  \<open>shared\<close>) is created inside the constructor's \<open>try\<close>, whose handler logs at
  \<open>ERROR\<close> (extra \<open>collection\<close>, \<open>organization_id\<close>) and raises again; the registry
  caches the new instance and then creates its own \<open>INFO\<close> record (\<open>__init__.py\<close> 79 to
  87, extra \<open>provider\<close>, \<open>organization_id\<close>, \<open>shared\<close>, \<open>collection\<close>).
\<close>

definition connected :: "log_level \<Rightarrow> string list \<Rightarrow> 'i vector_db_class \<Rightarrow> 'i vector_db_class" where
  "connected lvl ctx vector_db_class organization_id company_config shared =
     and_then (vector_db_class organization_id company_config shared) (\<lambda>self.
       case log_call lvl ctx INFO [''collection'', ''organization_id'', ''shared''] of
         Inl e \<Rightarrow> log_and_raise lvl ctx [''collection'', ''organization_id''] e
       | Inr u \<Rightarrow> Inr self)"

definition resolve_vector_db ::
  "log_level \<Rightarrow> string list \<Rightarrow> settings \<Rightarrow> string \<Rightarrow> world \<Rightarrow> (py_error + chroma_provider) \<times> world" where
  "resolve_vector_db lvl ctx s organization_id w =
     (let st = vector_dbs w;
          company_config = get_company_config s organization_id;
          vector_db_name = get_vector_db_for_company s organization_id;
          shared_vector_db = shared_vector_db_for_company s organization_id;
          cache_key = vector_db_cache_key s organization_id
      in case resolve_instance cache_key vector_db_name (DEFAULT_VECTOR_DB s)
                ''Vector database not found: '' ''Created vector database instance''
                (\<lambda>vector_db_class.
                   connected lvl ctx vector_db_class organization_id company_config
                     shared_vector_db)
                st of
           (Inl e, st') \<Rightarrow> (Inl e, w\<lparr>vector_dbs := st'\<rparr>)
         | (Inr (object_id, vector_db), st') \<Rightarrow>
             (if map_of (INSTANCES st) cache_key = None
              then logged lvl ctx INFO
                     [''provider'', ''organization_id'', ''shared'', ''collection''] vector_db
              else Inr vector_db,
              w\<lparr>vector_dbs := st'\<rparr>))"

definition agent_filter :: "string \<Rightarrow> string \<Rightarrow> pydict" where
  "agent_filter agent_id organization_id =
     [(''agent_id'', JStr agent_id), (''organization_id'', JStr organization_id),
      (''document_type'', JStr ''agent_metadata'')]"

definition associated_docs_filter :: "string \<Rightarrow> string \<Rightarrow> pydict" where
  "associated_docs_filter agent_id organization_id =
     [(''associated_agents'', JStr agent_id), (''organization_id'', JStr organization_id)]"

definition RESERVED_KEYS :: "string list" where
  "RESERVED_KEYS = [''agent_id'', ''name'', ''description'', ''instructions'', ''created_at'',
                    ''updated_at'', ''created_by'', ''organization_id'', ''type'']"

definition agent_response :: "string \<Rightarrow> pydict \<Rightarrow> nat \<Rightarrow> pydict" where
  "agent_response agent_id agent_metadata document_count =
     [(''id'', JStr agent_id),
      (''name'', or_else (dict_get agent_metadata ''name'') (JStr ''Unnamed Agent'')),
      (''description'', or_else (dict_get agent_metadata ''description'') JNull),
      (''instructions'', or_else (dict_get agent_metadata ''instructions'') (JStr [])),
      (''created_at'', or_else (dict_get agent_metadata ''created_at'') JNull),
      (''updated_at'', or_else (dict_get agent_metadata ''updated_at'') JNull),
      (''metadata'', JDict (filter (\<lambda>(k, v). k \<notin> set RESERVED_KEYS) agent_metadata)),
      (''document_count'', JInt (int document_count))]"

text \<open>\<open>json.loads(agent_doc["text"])\<close> followed by \<open>.get\<close>: the value must be a dictionary.\<close>

definition load_agent_metadata :: "stored_document \<Rightarrow> py_error + pydict" where
  "load_agent_metadata agent_doc =
     (case json_loads (sd_text agent_doc) of
        Inl e \<Rightarrow> Inl e
      | Inr (JDict agent_metadata) \<Rightarrow> Inr agent_metadata
      | Inr other \<Rightarrow> Inl AttributeError)"

text \<open>
  The extra of the "not found" warnings and of the handlers' error records, and the extra
  of the "unauthorized" warnings.
\<close>

definition AGENT_EXTRA :: "string list" where
  "AGENT_EXTRA = [''agent_id'', ''organization_id'', ''user_id'']"

definition UNAUTHORIZED_EXTRA :: "string list" where
  "UNAUTHORIZED_EXTRA = [''agent_id'', ''organization_id'', ''user_id'', ''created_by'']"

text \<open>
  \<open>get_agent\<close>: the body inside \<open>try\<close> (a missing agent is logged as a warning before
  \<open>None\<close> is returned), then the method, whose handler logs the error and raises again.
\<close>

definition get_agent_body ::
  "log_level \<Rightarrow> string list \<Rightarrow> settings \<Rightarrow> string \<Rightarrow> string \<Rightarrow> string \<Rightarrow> world
     \<Rightarrow> (py_error + pydict option) \<times> world" where
  "get_agent_body lvl ctx s agent_id organization_id user_id w =
     (case resolve_vector_db lvl ctx s organization_id w of
        (Inl e, w1) \<Rightarrow> (Inl e, w1)
      | (Inr vector_db, w1) \<Rightarrow>
          (case list_documents vector_db (agent_filter agent_id organization_id) 1 0
                  (stored w1 vector_db) of
             [] \<Rightarrow> (logged lvl ctx WARNING AGENT_EXTRA None, w1)
           | agent_doc # other_docs \<Rightarrow>
               (case load_agent_metadata agent_doc of
                  Inl e \<Rightarrow> (Inl e, w1)
                | Inr agent_metadata \<Rightarrow>
                    let document_count =
                          count_documents vector_db
                            (associated_docs_filter agent_id organization_id) (stored w1 vector_db)
                    in (Inr (Some (agent_response agent_id agent_metadata document_count)), w1))))"

definition get_agent ::
  "log_level \<Rightarrow> string list \<Rightarrow> settings \<Rightarrow> string \<Rightarrow> string \<Rightarrow> string \<Rightarrow> world
     \<Rightarrow> (py_error + pydict option) \<times> world" where
  "get_agent lvl ctx0 s agent_id organization_id user_id w =
     (let ctx = logging_context organization_id user_id ctx0
      in case get_agent_body lvl ctx s agent_id organization_id user_id w of
           (Inl e, w') \<Rightarrow> (log_and_raise lvl ctx AGENT_EXTRA e, w')
         | (Inr response, w') \<Rightarrow> (Inr response, w'))"

text \<open>
  The loop that removes the agent from the documents associated with it (lines 465 to
  481 and 639 to 655). \<open>agent_id in metadata["associated_agents"]\<close> and \<open>.remove\<close>
  are list operations; on a stored value of another type they raise or, for a string or a
  dictionary that does not contain the id, skip the document. The value
  \<open>update_document\<close> returns is not looked at; an exception it raises leaves the loop.
\<close>

fun remove_associations ::
  "log_level \<Rightarrow> string list \<Rightarrow> chroma_provider \<Rightarrow> string \<Rightarrow> collection \<Rightarrow> world
     \<Rightarrow> (py_error + unit) \<times> world" where
  "remove_associations lvl ctx vector_db agent_id [] w = (Inr (), w)"
| "remove_associations lvl ctx vector_db agent_id (doc # docs) w =
     (let doc_id = sd_id doc; metadata = sd_metadata doc
      in case dict_get metadata ''associated_agents'' of
           None \<Rightarrow> remove_associations lvl ctx vector_db agent_id docs w
         | Some (JList agents) \<Rightarrow>
             if JStr agent_id \<in> set agents then
               (let agents' = remove1 (JStr agent_id) agents;
                    metadata' = (if agents' = [] then dict_del ''associated_agents'' metadata
                                 else dict_set ''associated_agents'' (JList agents') metadata)
                in case vdb_update_document lvl ctx vector_db doc_id None (Some metadata') w of
                     (Inl e, w') \<Rightarrow> (Inl e, w')
                   | (Inr ok, w') \<Rightarrow> remove_associations lvl ctx vector_db agent_id docs w')
             else remove_associations lvl ctx vector_db agent_id docs w
         | Some (JStr str) \<Rightarrow>
             if is_infix agent_id str then (Inl AttributeError, w)
             else remove_associations lvl ctx vector_db agent_id docs w
         | Some (JDict d) \<Rightarrow>
             if dict_has d agent_id then (Inl AttributeError, w)
             else remove_associations lvl ctx vector_db agent_id docs w
         | Some other \<Rightarrow> (Inl TypeError, w))"

definition uncache_agent :: "string \<Rightarrow> world \<Rightarrow> world" where
  "uncache_agent agent_id w =
     (if agent_id \<in> set (map fst (agent_cache w))
      then w\<lparr>agent_cache := AList.delete agent_id (agent_cache w)\<rparr>
      else w)"

text \<open>
  \<open>delete_agent\<close>: the body inside \<open>try\<close>, then the method, whose handler logs the
  error and returns \<open>False\<close>. What the body changed before it raised stays changed.
\<close>

definition delete_agent_body ::
  "log_level \<Rightarrow> string list \<Rightarrow> settings \<Rightarrow> string \<Rightarrow> string \<Rightarrow> string \<Rightarrow> world
     \<Rightarrow> (py_error + bool) \<times> world" where
  "delete_agent_body lvl ctx s agent_id organization_id user_id w =
     (case resolve_vector_db lvl ctx s organization_id w of
        (Inl e, w1) \<Rightarrow> (Inl e, w1)
      | (Inr vector_db, w1) \<Rightarrow>
          (case list_documents vector_db (agent_filter agent_id organization_id) 1 0
                  (stored w1 vector_db) of
             [] \<Rightarrow> (logged lvl ctx WARNING AGENT_EXTRA False, w1)
           | agent_doc # other_docs \<Rightarrow>
               (case load_agent_metadata agent_doc of
                  Inl e \<Rightarrow> (Inl e, w1)
                | Inr agent_metadata \<Rightarrow>
                    let created_by = dict_get agent_metadata ''created_by'' in
                    if created_by \<noteq> Some (JStr user_id)
                    then (logged lvl ctx WARNING UNAUTHORIZED_EXTRA False, w1)
                    else
                      let agent_doc_id = sd_id agent_doc
                      in case vdb_delete_documents lvl ctx vector_db [agent_doc_id] w1 of
                           (Inl e, w2) \<Rightarrow> (Inl e, w2)
                         | (Inr success, w2) \<Rightarrow>
                             if \<not> success
                             then (logged lvl ctx ERROR
                                     [''agent_id'', ''document_id'', ''organization_id''] False,
                                   w2)
                             else
                               (let associated_docs =
                                      list_documents vector_db
                                        (associated_docs_filter agent_id organization_id) 1000 0
                                        (stored w2 vector_db)
                                in case remove_associations lvl ctx vector_db agent_id
                                          associated_docs w2 of
                                     (Inl e, w3) \<Rightarrow> (Inl e, w3)
                                   | (Inr u, w3) \<Rightarrow>
                                       (logged lvl ctx INFO
                                          [''agent_id'', ''organization_id'', ''user_id'',
                                           ''associated_docs_updated''] True,
                                        uncache_agent agent_id w3)))))"

definition delete_agent ::
  "log_level \<Rightarrow> string list \<Rightarrow> settings \<Rightarrow> string \<Rightarrow> string \<Rightarrow> string \<Rightarrow> world
     \<Rightarrow> (py_error + bool) \<times> world" where
  "delete_agent lvl ctx0 s agent_id organization_id user_id w =
     (let ctx = logging_context organization_id user_id ctx0
      in case delete_agent_body lvl ctx s agent_id organization_id user_id w of
           (Inl e, w') \<Rightarrow> (log_and_return lvl ctx AGENT_EXTRA False, w')
         | (Inr deleted, w') \<Rightarrow> (Inr deleted, w'))"

text \<open>
  \<open>update_agent\<close>. Lines 590 to 616 merge the provided fields into the agent metadata
  and tell whether anything was updated; \<open>now\<close> is
  \<open>datetime.utcnow().isoformat()\<close>.
\<close>

definition set_field :: "string \<Rightarrow> json option \<Rightarrow> bool \<times> pydict \<Rightarrow> bool \<times> pydict" where
  "set_field key new cur =
     (case new of None \<Rightarrow> cur | Some v \<Rightarrow> (True, dict_set key v (snd cur)))"

definition merge_custom_metadata :: "pydict option \<Rightarrow> bool \<times> pydict \<Rightarrow> bool \<times> pydict" where
  "merge_custom_metadata metadata cur =
     (case metadata of
        None \<Rightarrow> cur
      | Some m \<Rightarrow>
          fold (\<lambda>(key, value) c. if key \<in> set RESERVED_KEYS then c
                                  else (True, dict_set key value (snd c))) m cur)"

definition apply_updates ::
  "string option \<Rightarrow> string option \<Rightarrow> string option \<Rightarrow> pydict option \<Rightarrow> pydict option \<Rightarrow> pydict
     \<Rightarrow> bool \<times> pydict" where
  "apply_updates name instructions description document_filter metadata agent_metadata =
     merge_custom_metadata metadata
       (set_field ''document_filter'' (map_option JDict document_filter)
         (set_field ''description'' (map_option JStr description)
           (set_field ''instructions'' (map_option JStr instructions)
             (set_field ''name'' (map_option JStr name) (False, agent_metadata)))))"

text \<open>
  The loop that associates the new documents (lines 658 to 700): a document that is not
  found or belongs to another organization is logged as a warning and skipped.
\<close>

fun add_associations ::
  "log_level \<Rightarrow> string list \<Rightarrow> chroma_provider \<Rightarrow> string \<Rightarrow> string \<Rightarrow> string list \<Rightarrow> world
     \<Rightarrow> (py_error + unit) \<times> world" where
  "add_associations lvl ctx vector_db agent_id organization_id [] w = (Inr (), w)"
| "add_associations lvl ctx vector_db agent_id organization_id (doc_id # document_ids) w =
     (case get_document lvl ctx vector_db doc_id (stored w vector_db) of
        Inl e \<Rightarrow> (Inl e, w)
      | Inr None \<Rightarrow>
          (case log_call lvl ctx WARNING AGENT_EXTRA of
             Inl e \<Rightarrow> (Inl e, w)
           | Inr u \<Rightarrow> add_associations lvl ctx vector_db agent_id organization_id document_ids w)
      | Inr (Some doc) \<Rightarrow>
          if dict_get (sd_metadata doc) ''organization_id'' \<noteq> Some (JStr organization_id)
          then (case log_call lvl ctx WARNING
                       [''agent_id'', ''document_id'', ''organization_id'', ''document_org_id''] of
                  Inl e \<Rightarrow> (Inl e, w)
                | Inr u \<Rightarrow>
                    add_associations lvl ctx vector_db agent_id organization_id document_ids w)
          else
            (case (case dict_get (sd_metadata doc) ''associated_agents'' of
                     None \<Rightarrow>
                       Inr (dict_set ''associated_agents'' (JList [JStr agent_id]) (sd_metadata doc))
                   | Some (JList agents) \<Rightarrow>
                       Inr (if JStr agent_id \<in> set agents then sd_metadata doc
                            else dict_set ''associated_agents'' (JList (agents @ [JStr agent_id]))
                                   (sd_metadata doc))
                   | Some (JStr str) \<Rightarrow>
                       if is_infix agent_id str then Inr (sd_metadata doc) else Inl AttributeError
                   | Some (JDict d) \<Rightarrow>
                       if dict_has d agent_id then Inr (sd_metadata doc) else Inl AttributeError
                   | Some other \<Rightarrow> Inl TypeError) of
               Inl e \<Rightarrow> (Inl e, w)
             | Inr updated_metadata \<Rightarrow>
                 (case vdb_update_document lvl ctx vector_db doc_id None (Some updated_metadata)
                         w of
                    (Inl e, w') \<Rightarrow> (Inl e, w')
                  | (Inr ok, w') \<Rightarrow>
                      add_associations lvl ctx vector_db agent_id organization_id document_ids
                        w')))"

definition replace_associations ::
  "log_level \<Rightarrow> string list \<Rightarrow> chroma_provider \<Rightarrow> string \<Rightarrow> string \<Rightarrow> string list option \<Rightarrow> world
     \<Rightarrow> (py_error + unit) \<times> world" where
  "replace_associations lvl ctx vector_db agent_id organization_id document_ids w =
     (case document_ids of
        None \<Rightarrow> (Inr (), w)
      | Some ids \<Rightarrow>
          (let current_docs =
                 list_documents vector_db (associated_docs_filter agent_id organization_id) 1000 0
                   (stored w vector_db)
           in case remove_associations lvl ctx vector_db agent_id current_docs w of
                (Inl e, w') \<Rightarrow> (Inl e, w')
              | (Inr u, w') \<Rightarrow>
                  add_associations lvl ctx vector_db agent_id organization_id ids w'))"

text \<open>
  The body inside \<open>try\<close> (its last statement calls \<open>get_agent\<close>, which enters its own
  logging context inside this one), then the method, whose handler logs the error and
  returns \<open>None\<close>.
\<close>

definition update_agent_body ::
  "log_level \<Rightarrow> string list \<Rightarrow> settings \<Rightarrow> string \<Rightarrow> string \<Rightarrow> string \<Rightarrow> string \<Rightarrow> string option
     \<Rightarrow> string option \<Rightarrow> string option \<Rightarrow> string list option \<Rightarrow> pydict option \<Rightarrow> pydict option
     \<Rightarrow> world \<Rightarrow> (py_error + pydict option) \<times> world" where
  "update_agent_body lvl ctx s now agent_id organization_id user_id name instructions description
       document_ids document_filter metadata w =
     (case resolve_vector_db lvl ctx s organization_id w of
        (Inl e, w1) \<Rightarrow> (Inl e, w1)
      | (Inr vector_db, w1) \<Rightarrow>
          (case list_documents vector_db (agent_filter agent_id organization_id) 1 0
                  (stored w1 vector_db) of
             [] \<Rightarrow> (logged lvl ctx WARNING AGENT_EXTRA None, w1)
           | agent_doc # other_docs \<Rightarrow>
               (case load_agent_metadata agent_doc of
                  Inl e \<Rightarrow> (Inl e, w1)
                | Inr agent_metadata \<Rightarrow>
                    let created_by = dict_get agent_metadata ''created_by'' in
                    if created_by \<noteq> Some (JStr user_id)
                    then (logged lvl ctx WARNING UNAUTHORIZED_EXTRA None, w1)
                    else
                      let (updated, agent_metadata') =
                            apply_updates name instructions description document_filter metadata
                              agent_metadata
                      in case (if updated
                               then vdb_update_document lvl ctx vector_db (sd_id agent_doc)
                                      (Some (json_dumps
                                               (JDict (dict_set ''updated_at'' (JStr now)
                                                         agent_metadata'))))
                                      None w1
                               else (Inr True, w1)) of
                           (Inl e, w2) \<Rightarrow> (Inl e, w2)
                         | (Inr ok, w2) \<Rightarrow>
                             (case replace_associations lvl ctx vector_db agent_id organization_id
                                     document_ids w2 of
                                (Inl e, w3) \<Rightarrow> (Inl e, w3)
                              | (Inr u, w3) \<Rightarrow>
                                  get_agent lvl ctx s agent_id organization_id user_id
                                    (uncache_agent agent_id w3)))))"

definition update_agent ::
  "log_level \<Rightarrow> string list \<Rightarrow> settings \<Rightarrow> string \<Rightarrow> string \<Rightarrow> string \<Rightarrow> string \<Rightarrow> string option
     \<Rightarrow> string option \<Rightarrow> string option \<Rightarrow> string list option \<Rightarrow> pydict option \<Rightarrow> pydict option
     \<Rightarrow> world \<Rightarrow> (py_error + pydict option) \<times> world" where
  "update_agent lvl ctx0 s now agent_id organization_id user_id name instructions description
       document_ids document_filter metadata w =
     (let ctx = logging_context organization_id user_id ctx0
      in case update_agent_body lvl ctx s now agent_id organization_id user_id name instructions
                description document_ids document_filter metadata w of
           (Inl e, w') \<Rightarrow> (log_and_return lvl ctx AGENT_EXTRA None, w')
         | (Inr updated, w') \<Rightarrow> (Inr updated, w'))"

text \<open>
  \<open>_get_agent_instance\<close>, which \<open>chat_with_agent\<close> calls first, inside its logging
  context.
\<close>

definition dict_index :: "pydict \<Rightarrow> string \<Rightarrow> py_error + json" where
  "dict_index d k = (case dict_get d k of None \<Rightarrow> Inl (KeyError k) | Some v \<Rightarrow> Inr v)"

definition RAGAgent :: "string \<Rightarrow> string \<Rightarrow> string \<Rightarrow> pydict \<Rightarrow> py_error + rag_agent" where
  "RAGAgent agent_id organization_id user_id agent_info =
     and_then (dict_index agent_info ''name'') (\<lambda>agent_name.
     and_then (dict_index agent_info ''description'') (\<lambda>agent_description.
     and_then (dict_index agent_info ''instructions'') (\<lambda>agent_instructions.
     and_then (dict_index agent_info ''metadata'') (\<lambda>metadata.
       Inr \<lparr>ra_agent_id = agent_id, ra_agent_name = agent_name,
            ra_agent_description = agent_description,
            ra_agent_instructions = agent_instructions,
            ra_organization_id = organization_id, ra_user_id = user_id,
            ra_metadata = metadata\<rparr>))))"

definition get_agent_instance ::
  "log_level \<Rightarrow> string list \<Rightarrow> settings \<Rightarrow> string \<Rightarrow> string \<Rightarrow> string \<Rightarrow> world
     \<Rightarrow> (py_error + rag_agent option) \<times> world" where
  "get_agent_instance lvl ctx s agent_id organization_id user_id w =
     (let cache_key = organization_id @ '':'' @ agent_id
      in case map_of (agent_cache w) cache_key of
           Some agent \<Rightarrow> (Inr (Some agent), w)
         | None \<Rightarrow>
             (case get_agent lvl ctx s agent_id organization_id user_id w of
                (Inl e, w1) \<Rightarrow> (Inl e, w1)
              | (Inr None, w1) \<Rightarrow> (Inr None, w1)
              | (Inr (Some agent_info), w1) \<Rightarrow>
                  (case RAGAgent agent_id organization_id user_id agent_info of
                     Inl e \<Rightarrow> (Inl e, w1)
                   | Inr agent \<Rightarrow>
                       (Inr (Some agent),
                        w1\<lparr>agent_cache := AList.update cache_key agent (agent_cache w1)\<rparr>))))"

section \<open>The agent manager at concrete states\<close>

text \<open>
  The shared Chroma instance as the registry caches it after a first resolution for
  \<open>org1\<close> under the settings of \<open>config.py\<close> (shared vector database, provider
  \<open>chroma\<close>): the cache key is \<open>shared:chroma\<close> for every organization.
\<close>

definition shared_registry ::
  "(chroma_provider vector_db_class, chroma_provider) registry" where
  "shared_registry =
     \<lparr>REGISTRY = [(''chroma'', ChromaDBProvider default_settings)],
      INSTANCES = [(''shared:chroma'', 0, org1_chroma)],
      next_object_id = 1,
      log_records = [(INFO, ''Created vector database instance'')]\<rparr>"

definition world_0 :: world where
  "world_0 = \<lparr>vector_dbs = chroma_registry default_settings, chroma_server = [],
              agent_cache = []\<rparr>"

lemmas manager_defs =
  get_agent_instance_def get_agent_def get_agent_body_def update_agent_def update_agent_body_def
  delete_agent_def delete_agent_body_def resolve_vector_db_def connected_def
  get_vector_db_def get_company_config_def default_settings_def resolve_instance_def
  get_vector_db_for_company_def shared_vector_db_for_company_def vector_db_cache_key_def
  shared_registry_def org1_chroma_def Let_def
  stored_def store_def vdb_update_document_def vdb_delete_documents_def
  list_documents_def count_documents_def scoped_where_def collection_get_where_def
  collection_get_ids_def collection_delete_def collection_update_def List.map_filter_def
  delete_documents_def update_document_def get_document_def
  agent_filter_def associated_docs_filter_def agent_response_def RESERVED_KEYS_def
  AGENT_EXTRA_def UNAUTHORIZED_EXTRA_def
  load_agent_metadata_def json_loads_def json_dumps_def
  apply_updates_def set_field_def merge_custom_metadata_def replace_associations_def
  uncache_agent_def RAGAgent_def dict_index_def and_then_def or_else_def
  dict_get_def dict_set_def dict_del_def dict_has_def dict_update_all_def value_matches_def

lemmas logging_defs =
  log_call_def logged_def log_and_raise_def log_and_return_def refused_def
  logging_context_def RECORD_ATTRIBUTES_def

lemma shared_registry_reached:
  "get_vector_db default_settings ''org1'' (chroma_registry default_settings)
     = (Inr (0, org1_chroma), shared_registry)"
  by (simp add: get_vector_db_def get_company_config_def default_settings_def
      chroma_registry_def resolve_instance_def Let_def ChromaDBProvider_def
      shared_registry_def org1_chroma_def)

text \<open>
  The same resolution made by a manager method for \<open>org1\<close>, inside its logging context,
  under a logger level above \<open>INFO\<close>; and a resolution for any organization afterwards.
\<close>

lemma shared_registry_reached_in_context:
  "resolve_vector_db WARNING (logging_context ''org1'' ''alice'' []) default_settings ''org1''
       world_0
     = (Inr org1_chroma, world_0\<lparr>vector_dbs := shared_registry\<rparr>)"
  by (simp add: manager_defs logging_defs world_0_def chroma_registry_def ChromaDBProvider_def)

lemma shared_registry_serves_every_organization:
  "resolve_vector_db lvl ctx default_settings org (w\<lparr>vector_dbs := shared_registry\<rparr>)
     = (Inr org1_chroma, w\<lparr>vector_dbs := shared_registry\<rparr>)"
  by (simp add: manager_defs)

text \<open>An agent of \<open>alice\<close> in \<open>org1\<close>, as \<open>create_agent\<close> stores it.\<close>

definition agent_a_metadata :: pydict where
  "agent_a_metadata =
     [(''agent_id'', JStr ''agent-a''), (''name'', JStr ''Helper''), (''description'', JNull),
      (''instructions'', JStr ''Answer.''), (''created_by'', JStr ''alice''),
      (''created_at'', JStr ''2024-01-01T00:00:00''), (''organization_id'', JStr ''org1''),
      (''type'', JStr ''rag_agent'')]"

definition agent_a_doc :: stored_document where
  "agent_a_doc =
     \<lparr>sd_id = ''doc-a'', sd_text = json_dumps (JDict agent_a_metadata),
      sd_metadata = [(''agent_id'', JStr ''agent-a''), (''organization_id'', JStr ''org1''),
                     (''user_id'', JStr ''alice''), (''visibility'', JStr ''private''),
                     (''document_type'', JStr ''agent_metadata''), (''timestamp'', JInt 0)],
      sd_embedding = []\<rparr>"

definition agent_a :: rag_agent where
  "agent_a =
     \<lparr>ra_agent_id = ''agent-a'', ra_agent_name = JStr ''Helper'', ra_agent_description = JNull,
      ra_agent_instructions = JStr ''Answer.'', ra_organization_id = ''org1'',
      ra_user_id = ''alice'', ra_metadata = JDict []\<rparr>"

definition world_a :: world where
  "world_a =
     \<lparr>vector_dbs = shared_registry,
      chroma_server = [(''hello_pulse'', [agent_a_doc])],
      agent_cache = []\<rparr>"

definition world_a_chatted :: world where
  "world_a_chatted = world_a\<lparr>agent_cache := [(''org1:agent-a'', agent_a)]\<rparr>"

lemma world_a_chat:
  "get_agent_instance lvl ctx default_settings ''agent-a'' ''org1'' ''alice'' world_a
     = (Inr (Some agent_a), world_a_chatted)"
  by (simp add: manager_defs world_a_def world_a_chatted_def agent_a_doc_def
      agent_a_metadata_def agent_a_def)

lemma world_a_update:
  "update_agent lvl ctx default_settings ''2024-02-02T00:00:00'' ''agent-a'' ''org1'' ''alice''
       (Some ''Renamed'') None None None None None world_a_chatted
     = (Inr (Some [(''id'', JStr ''agent-a''), (''name'', JStr ''Renamed''),
                   (''description'', JNull), (''instructions'', JStr ''Answer.''),
                   (''created_at'', JStr ''2024-01-01T00:00:00''),
                   (''updated_at'', JStr ''2024-02-02T00:00:00''),
                   (''metadata'', JDict []), (''document_count'', JInt 0)]),
        world_a_chatted
          \<lparr>chroma_server :=
             [(''hello_pulse'',
               [agent_a_doc
                  \<lparr>sd_text :=
                     json_dumps
                       (JDict (dict_set ''updated_at'' (JStr ''2024-02-02T00:00:00'')
                                 (dict_set ''name'' (JStr ''Renamed'') agent_a_metadata)))\<rparr>])]\<rparr>)"
  by (simp add: manager_defs world_a_def world_a_chatted_def agent_a_doc_def
      agent_a_metadata_def agent_a_def)

lemma world_a_delete:
  "delete_agent WARNING ctx default_settings ''agent-a'' ''org1'' ''alice'' world_a_chatted
     = (Inr True, world_a_chatted\<lparr>chroma_server := [(''hello_pulse'', [])]\<rparr>)"
  by (simp add: manager_defs log_call_def logged_def world_a_def world_a_chatted_def
      agent_a_doc_def agent_a_metadata_def agent_a_def)

text \<open>
  C4, the code at the failing input. \<open>_get_agent_instance\<close> caches the agent under
  \<open>org1:agent-a\<close>. A successful \<open>update_agent\<close> (the agent is renamed and the
  updated information is returned; the path creates no log record, so this holds at every
  logger level and in every logging context) and a successful \<open>delete_agent\<close> (logger
  level \<open>WARNING\<close>) both test and delete the key \<open>agent-a\<close>, which the cache never
  holds: the instance built before the update, with the old name, is still cached under
  \<open>org1:agent-a\<close> afterwards.
\<close>

theorem agent_cache_survives_update_and_delete:
  "get_agent_instance lvl ctx default_settings ''agent-a'' ''org1'' ''alice'' world_a
     = (Inr (Some agent_a), world_a_chatted)
   \<and> map_of (agent_cache world_a_chatted) ''org1:agent-a'' = Some agent_a
   \<and> fst (update_agent lvl ctx default_settings ''2024-02-02T00:00:00'' ''agent-a'' ''org1''
            ''alice'' (Some ''Renamed'') None None None None None world_a_chatted)
       = Inr (Some [(''id'', JStr ''agent-a''), (''name'', JStr ''Renamed''),
                    (''description'', JNull), (''instructions'', JStr ''Answer.''),
                    (''created_at'', JStr ''2024-01-01T00:00:00''),
                    (''updated_at'', JStr ''2024-02-02T00:00:00''),
                    (''metadata'', JDict []), (''document_count'', JInt 0)])
   \<and> map_of (agent_cache
               (snd (update_agent lvl ctx default_settings ''2024-02-02T00:00:00'' ''agent-a''
                       ''org1'' ''alice'' (Some ''Renamed'') None None None None None
                       world_a_chatted)))
         ''org1:agent-a'' = Some agent_a
   \<and> fst (delete_agent WARNING ctx default_settings ''agent-a'' ''org1'' ''alice''
            world_a_chatted) = Inr True
   \<and> map_of (agent_cache
               (snd (delete_agent WARNING ctx default_settings ''agent-a'' ''org1'' ''alice''
                       world_a_chatted)))
         ''org1:agent-a'' = Some agent_a"
proof -
  have c: "map_of (agent_cache world_a_chatted) ''org1:agent-a'' = Some agent_a"
    by (simp add: world_a_chatted_def)
  show ?thesis
    unfolding world_a_update world_a_delete world_a_chat using c
    by (simp add: world_a_chatted_def)
qed

text \<open>An agent of \<open>bob\<close> in \<open>org2\<close> and a document of \<open>org2\<close> associated with it.\<close>

definition agent_b_metadata :: pydict where
  "agent_b_metadata =
     [(''agent_id'', JStr ''agent-b''), (''name'', JStr ''Guide''), (''description'', JNull),
      (''instructions'', JStr ''Explain.''), (''created_by'', JStr ''bob''),
      (''created_at'', JStr ''2024-01-01T00:00:00''), (''organization_id'', JStr ''org2''),
      (''type'', JStr ''rag_agent'')]"

definition agent_b_doc :: stored_document where
  "agent_b_doc =
     \<lparr>sd_id = ''doc-b'', sd_text = json_dumps (JDict agent_b_metadata),
      sd_metadata = [(''agent_id'', JStr ''agent-b''), (''organization_id'', JStr ''org2''),
                     (''user_id'', JStr ''bob''), (''visibility'', JStr ''private''),
                     (''document_type'', JStr ''agent_metadata''), (''timestamp'', JInt 0)],
      sd_embedding = []\<rparr>"

definition knowledge_b_doc :: stored_document where
  "knowledge_b_doc =
     \<lparr>sd_id = ''k1'', sd_text = Text ''A fact.'',
      sd_metadata = [(''organization_id'', JStr ''org2''), (''user_id'', JStr ''bob''),
                     (''visibility'', JStr ''shared''), (''timestamp'', JInt 0),
                     (''associated_agents'', JList [JStr ''agent-b''])],
      sd_embedding = []\<rparr>"

definition released_b_doc :: stored_document where
  "released_b_doc =
     knowledge_b_doc
       \<lparr>sd_metadata := [(''organization_id'', JStr ''org2''), (''user_id'', JStr ''bob''),
                        (''visibility'', JStr ''shared''), (''timestamp'', JInt 0)]\<rparr>"

text \<open>
  The store with the agent and its document when the cached shared instance is the one
  built for \<open>org2\<close>; when it is the one built for \<open>org1\<close>; and the store with the
  agent alone under the instance built for \<open>org1\<close>.
\<close>

definition org2_chroma :: chroma_provider where
  "org2_chroma = \<lparr>chroma_organization_id = ''org2'', chroma_shared = True,
                  chroma_collection_name = ''hello_pulse''\<rparr>"

definition world_b_own :: world where
  "world_b_own =
     \<lparr>vector_dbs = shared_registry\<lparr>INSTANCES := [(''shared:chroma'', 0, org2_chroma)]\<rparr>,
      chroma_server = [(''hello_pulse'', [agent_b_doc, knowledge_b_doc])],
      agent_cache = []\<rparr>"

definition world_b :: world where
  "world_b =
     \<lparr>vector_dbs = shared_registry,
      chroma_server = [(''hello_pulse'', [agent_b_doc, knowledge_b_doc])],
      agent_cache = []\<rparr>"

definition world_b_alone :: world where
  "world_b_alone =
     \<lparr>vector_dbs = shared_registry,
      chroma_server = [(''hello_pulse'', [agent_b_doc])],
      agent_cache = []\<rparr>"

lemmas world_b_defs =
  world_b_def world_b_own_def world_b_alone_def org2_chroma_def agent_b_doc_def
  agent_b_metadata_def knowledge_b_doc_def released_b_doc_def

text \<open>
  With the instance built for \<open>org2\<close>, under logger level \<open>WARNING\<close>:
  \<open>delete_agent\<close> deletes the agent document, releases the associated document and
  returns \<open>True\<close>; the "Agent not found" warning of the \<open>get_agent\<close> that follows
  names \<open>organization_id\<close>, which the logging context has set.
\<close>

lemma delete_agent_own_instance:
  "delete_agent WARNING [] default_settings ''agent-b'' ''org2'' ''bob'' world_b_own
     = (Inr True, world_b_own\<lparr>chroma_server := [(''hello_pulse'', [released_b_doc])]\<rparr>)"
  by (simp add: manager_defs log_call_def logged_def world_b_defs)

lemma get_agent_after_delete:
  "get_agent WARNING [] default_settings ''agent-b'' ''org2'' ''bob''
       (world_b_own\<lparr>chroma_server := [(''hello_pulse'', [released_b_doc])]\<rparr>)
     = (Inl (overwrite_error ''organization_id''),
        world_b_own\<lparr>chroma_server := [(''hello_pulse'', [released_b_doc])]\<rparr>)"
  by (simp add: manager_defs logging_defs world_b_defs)

text \<open>
  The same calls under logger level \<open>ERROR\<close>, where no warning record is created: the
  agent is deleted and \<open>get_agent\<close> returns \<open>None\<close>.
\<close>

lemma delete_agent_own_instance_error_level:
  "delete_agent ERROR [] default_settings ''agent-b'' ''org2'' ''bob'' world_b_own
     = (Inr True, world_b_own\<lparr>chroma_server := [(''hello_pulse'', [released_b_doc])]\<rparr>)
   \<and> fst (get_agent ERROR [] default_settings ''agent-b'' ''org2'' ''bob''
            (world_b_own\<lparr>chroma_server := [(''hello_pulse'', [released_b_doc])]\<rparr>))
       = Inr None"
  by (simp add: manager_defs log_call_def logged_def world_b_defs)

text \<open>
  Under logger level \<open>INFO\<close> the agent is deleted as well, but the "Deleted agent" record
  and then the handler's error record raise: \<open>delete_agent\<close> raises \<open>KeyError\<close>.
\<close>

lemma delete_agent_own_instance_info_level:
  "delete_agent INFO [] default_settings ''agent-b'' ''org2'' ''bob'' world_b_own
     = (Inl (overwrite_error ''organization_id''),
        world_b_own\<lparr>chroma_server := [(''hello_pulse'', [released_b_doc])]\<rparr>)"
  by (simp add: manager_defs logging_defs world_b_defs)

text \<open>
  With the instance built for \<open>org1\<close> and the associated document in the store, under
  logger level \<open>WARNING\<close>: \<open>update_document\<close> refuses the associated document with a
  warning that names \<open>organization_id\<close>, and the \<open>KeyError\<close> leaves \<open>delete_agent\<close>.
  Under logger level \<open>ERROR\<close> the warning record is not created: \<open>delete_agent\<close>
  returns \<open>True\<close> and nothing has changed.
\<close>

lemma delete_agent_foreign_instance_raises:
  "delete_agent WARNING [] default_settings ''agent-b'' ''org2'' ''bob'' world_b
     = (Inl (overwrite_error ''organization_id''), world_b)"
  by (simp add: manager_defs logging_defs world_b_defs)

lemma delete_agent_foreign_instance_error_level:
  "delete_agent ERROR [] default_settings ''agent-b'' ''org2'' ''bob'' world_b
     = (Inr True, world_b)
   \<and> fst (get_agent ERROR [] default_settings ''agent-b'' ''org2'' ''bob'' world_b)
       = Inr (Some [(''id'', JStr ''agent-b''), (''name'', JStr ''Guide''),
                    (''description'', JNull), (''instructions'', JStr ''Explain.''),
                    (''created_at'', JStr ''2024-01-01T00:00:00''), (''updated_at'', JNull),
                    (''metadata'', JDict []), (''document_count'', JInt 1)])"
  by (simp add: manager_defs logging_defs world_b_defs)

lemma delete_agent_foreign_instance_alone:
  "delete_agent WARNING [] default_settings ''agent-b'' ''org2'' ''bob'' world_b_alone
     = (Inr True, world_b_alone)"
  by (simp add: manager_defs log_call_def logged_def world_b_defs)

lemma get_agent_foreign_instance_alone:
  "get_agent WARNING [] default_settings ''agent-b'' ''org2'' ''bob'' world_b_alone
     = (Inr (Some [(''id'', JStr ''agent-b''), (''name'', JStr ''Guide''),
                   (''description'', JNull), (''instructions'', JStr ''Explain.''),
                   (''created_at'', JStr ''2024-01-01T00:00:00''), (''updated_at'', JNull),
                   (''metadata'', JDict []), (''document_count'', JInt 0)]),
        world_b_alone)"
  by (simp add: manager_defs world_b_defs)

text \<open>
  C5, the code at the failing input, under logger level \<open>WARNING\<close>. First, with the
  vector database instance of the caller's organization: \<open>delete_agent\<close> returns
  \<open>True\<close>, the agent document is deleted and the associated document no longer lists
  the agent, but the \<open>get_agent\<close> that follows does not return \<open>None\<close>: it raises
  \<open>KeyError\<close>, from its own "Agent not found" warning. Second, with the shared instance
  that the registry built for another organization (the cache key \<open>shared:chroma\<close> does
  not name the organization): \<open>delete_documents\<close> drops the id of the agent document
  and returns \<open>True\<close> ("no documents to delete"), \<open>delete_agent\<close> returns \<open>True\<close>
  with the store unchanged, and \<open>get_agent\<close> still returns the agent.
\<close>

theorem delete_agent_true_get_agent_not_absent:
  "delete_agent WARNING [] default_settings ''agent-b'' ''org2'' ''bob'' world_b_own
     = (Inr True, world_b_own\<lparr>chroma_server := [(''hello_pulse'', [released_b_doc])]\<rparr>)
   \<and> fst (get_agent WARNING [] default_settings ''agent-b'' ''org2'' ''bob''
            (snd (delete_agent WARNING [] default_settings ''agent-b'' ''org2'' ''bob''
                    world_b_own)))
       = Inl (overwrite_error ''organization_id'')
   \<and> delete_agent WARNING [] default_settings ''agent-b'' ''org2'' ''bob'' world_b_alone
       = (Inr True, world_b_alone)
   \<and> fst (get_agent WARNING [] default_settings ''agent-b'' ''org2'' ''bob''
            (snd (delete_agent WARNING [] default_settings ''agent-b'' ''org2'' ''bob''
                    world_b_alone)))
       = Inr (Some [(''id'', JStr ''agent-b''), (''name'', JStr ''Guide''),
                    (''description'', JNull), (''instructions'', JStr ''Explain.''),
                    (''created_at'', JStr ''2024-01-01T00:00:00''), (''updated_at'', JNull),
                    (''metadata'', JDict []), (''document_count'', JInt 0)])"
  unfolding delete_agent_own_instance delete_agent_foreign_instance_alone
  by (simp add: get_agent_after_delete get_agent_foreign_instance_alone)

end
